theory Spec2Isabelle
  imports Complex_Main
begin

section \<open>JavaScript values\<close>

text \<open>
  The handlers work on untyped JavaScript objects. A number is either the not-a-number
  sentinel or an integer (the only numbers \<^verbatim>\<open>parseInt\<close> produces); JavaScript
  agrees with the exact integers used here for magnitudes below \<open>2^53\<close>, and rounds
  beyond that. A request body holds JSON values (multipart form fields are JSON strings);
  a record being normalised may in addition hold \<^verbatim>\<open>Date\<close> objects and store
  identifiers. The time value of a \<^verbatim>\<open>Date\<close> is \<open>None\<close> for
  \<^verbatim>\<open>Invalid Date\<close>. A \<open>char\<close> stands for one UTF-16 code unit below 256.
  An absent property (\<^verbatim>\<open>undefined\<close>) is \<open>None\<close>.
\<close>

datatype jsnum = NaN | Num int

datatype json =
    JNull
  | JBool bool
  | JNum jsnum
  | JStr string
  | JArr "json list"
  | JObj "(string \<times> json) list"

datatype jsval = JSON json | JDate "int option" | JOid string

abbreviation Text :: "string \<Rightarrow> jsval" where
  "Text s \<equiv> JSON (JStr s)"

abbreviation Number :: "jsnum \<Rightarrow> jsval" where
  "Number n \<equiv> JSON (JNum n)"

type_synonym jsobj = "string \<Rightarrow> jsval option"

text \<open>Truthiness, as tested by \<^verbatim>\<open>if (v)\<close>, \<^verbatim>\<open>!v\<close> and \<^verbatim>\<open>v || d\<close>.\<close>

fun truthy_num :: "jsnum \<Rightarrow> bool" where
  "truthy_num NaN = False"
| "truthy_num (Num k) = (k \<noteq> 0)"

fun truthy_json :: "json \<Rightarrow> bool" where
  "truthy_json JNull = False"
| "truthy_json (JBool b) = b"
| "truthy_json (JNum n) = truthy_num n"
| "truthy_json (JStr s) = (s \<noteq> [])"
| "truthy_json (JArr xs) = True"
| "truthy_json (JObj kvs) = True"

fun truthy :: "jsval option \<Rightarrow> bool" where
  "truthy None = False"
| "truthy (Some (JSON j)) = truthy_json j"
| "truthy (Some (JDate t)) = True"
| "truthy (Some (JOid h)) = True"

text \<open>\<^verbatim>\<open>typeof v === 'string'\<close> and \<^verbatim>\<open>Array.isArray(v)\<close>.\<close>

fun is_string :: "jsval option \<Rightarrow> bool" where
  "is_string (Some (JSON (JStr s))) = True"
| "is_string v = False"

fun isArray :: "jsval option \<Rightarrow> bool" where
  "isArray (Some (JSON (JArr xs))) = True"
| "isArray v = False"

fun isNaN :: "jsnum \<Rightarrow> bool" where
  "isNaN NaN = True"
| "isNaN (Num k) = False"

text \<open>\<^verbatim>\<open>a || d\<close> on numbers: the default replaces \<^verbatim>\<open>NaN\<close> and \<open>0\<close>.\<close>

definition num_or :: "jsnum \<Rightarrow> int \<Rightarrow> int" where
  "num_or n d = (case n of NaN \<Rightarrow> d | Num k \<Rightarrow> if k = 0 then d else k)"

subsection \<open>Strings: white space, \<^verbatim>\<open>trim\<close>, \<^verbatim>\<open>join\<close>, \<^verbatim>\<open>ToString\<close>\<close>

text \<open>
  White space and line terminators of ECMAScript among the code units below 256:
  TAB, LF, VT, FF, CR, SP and NBSP.
\<close>

definition is_space :: "char \<Rightarrow> bool" where
  "is_space c \<longleftrightarrow> (of_char c :: nat) \<in> {9, 10, 11, 12, 13, 32, 160}"

definition trim :: "string \<Rightarrow> string" where
  "trim s = rev (dropWhile is_space (rev (dropWhile is_space s)))"

fun join :: "string \<Rightarrow> string list \<Rightarrow> string" where
  "join sep [] = []"
| "join sep [x] = x"
| "join sep (x # y # ys) = x @ sep @ join sep (y # ys)"

fun digits :: "nat \<Rightarrow> string" where
  "digits n =
     (if n < 10 then [char_of (48 + n)]
      else digits (n div 10) @ [char_of (48 + n mod 10)])"

declare digits.simps [simp del]

fun num_ToString :: "jsnum \<Rightarrow> string" where
  "num_ToString NaN = ''NaN''"
| "num_ToString (Num k) = (if k < 0 then CHR ''-'' # digits (nat (- k)) else digits (nat k))"

text \<open>
  \<^verbatim>\<open>ToString\<close>: an array prints its elements joined by commas, \<^verbatim>\<open>null\<close>
  elements as the empty string; every plain object prints as \<^verbatim>\<open>[object Object]\<close>.
  Integers print as decimal digits (JavaScript switches to exponent notation from
  \<open>10^21\<close> on).
\<close>

fun ToString :: "json \<Rightarrow> string" where
  "ToString JNull = ''null''"
| "ToString (JBool b) = (if b then ''true'' else ''false'')"
| "ToString (JNum n) = num_ToString n"
| "ToString (JStr s) = s"
| "ToString (JArr xs) = join '','' (map (\<lambda>x. if x = JNull then [] else ToString x) xs)"
| "ToString (JObj kvs) = ''[object Object]''"

subsection \<open>\<^verbatim>\<open>parseInt\<close>\<close>

text \<open>
  \<^verbatim>\<open>parseInt(string)\<close> with no radix: skip leading white space, read an optional
  sign, switch to radix 16 after a \<^verbatim>\<open>0x\<close> or \<^verbatim>\<open>0X\<close> prefix, and read the
  longest prefix of digits of the radix. No digit at all gives \<^verbatim>\<open>NaN\<close>; whatever
  follows the digits is ignored.
\<close>

definition digit_value :: "char \<Rightarrow> nat" where
  "digit_value c =
     (let n = of_char c in
      if 48 \<le> n \<and> n \<le> 57 then n - 48
      else if 97 \<le> n \<and> n \<le> 122 then n - 87
      else if 65 \<le> n \<and> n \<le> 90 then n - 55
      else 36)"

definition is_radix_digit :: "nat \<Rightarrow> char \<Rightarrow> bool" where
  "is_radix_digit R c \<longleftrightarrow> digit_value c < R"

definition strip_sign :: "string \<Rightarrow> int \<times> string" where
  "strip_sign S =
     (case S of
        [] \<Rightarrow> (1, [])
      | c # rest \<Rightarrow>
          if c = CHR ''-'' then (- 1, rest)
          else if c = CHR ''+'' then (1, rest)
          else (1, S))"

definition strip_prefix :: "string \<Rightarrow> nat \<times> string" where
  "strip_prefix S =
     (if take 2 S = ''0x'' \<or> take 2 S = ''0X'' then (16, drop 2 S) else (10, S))"

definition parseInt :: "string \<Rightarrow> jsnum" where
  "parseInt inputString =
     (let (sign, S) = strip_sign (dropWhile is_space inputString);
          (R, S) = strip_prefix S;
          Z = takeWhile (is_radix_digit R) S
      in if Z = [] then NaN
         else Num (sign * int (foldl (\<lambda>a c. a * R + digit_value c) 0 Z)))"

text \<open>
  \<^verbatim>\<open>parseInt(v)\<close> on a value first converts it with \<^verbatim>\<open>ToString\<close>. A
  \<^verbatim>\<open>Date\<close> prints with a weekday name or as \<^verbatim>\<open>Invalid Date\<close>, neither of
  which starts with a digit; an identifier prints as its hexadecimal text.
\<close>

fun parseInt_val :: "jsval option \<Rightarrow> jsnum" where
  "parseInt_val None = parseInt ''undefined''"
| "parseInt_val (Some (JSON j)) = parseInt (ToString j)"
| "parseInt_val (Some (JDate t)) = NaN"
| "parseInt_val (Some (JOid h)) = parseInt h"

section \<open>The platform\<close>

text \<open>
  What the handlers take from the runtime and the database driver, and what this
  repository does not define: the date parser behind \<^verbatim>\<open>new Date(text)\<close> (its result
  outside the ISO format is implementation-defined), \<^verbatim>\<open>JSON.parse\<close>
  (\<open>None\<close> when it throws), the driver's \<^verbatim>\<open>ObjectId.isValid\<close> and
  \<^verbatim>\<open>new ObjectId\<close> (\<open>Inl\<close> when they throw), and the order in which the store
  returns documents sorted downwards on a field.
\<close>

record js_error =
  err_message :: string
  err_statusCode :: "nat option"
  err_code :: "string option"
  err_name :: string

record platform =
  Date_parse :: "string \<Rightarrow> int option"
  JSON_parse :: "string \<Rightarrow> json option"
  ObjectId_isValid :: "string \<Rightarrow> js_error + bool"
  ObjectId_new :: "string \<Rightarrow> js_error + string"
  sort_desc :: "string \<Rightarrow> jsobj list \<Rightarrow> jsobj list"

text \<open>\<^verbatim>\<open>class APIError extends Error\<close>: a message and a status code.\<close>

definition APIError :: "string \<Rightarrow> nat \<Rightarrow> js_error" where
  "APIError message statusCode =
     \<lparr>err_message = message, err_statusCode = Some statusCode, err_code = None,
      err_name = ''Error''\<rparr>"

text \<open>A plain \<^verbatim>\<open>Error\<close>, as thrown by the driver or by \<^verbatim>\<open>getDB\<close>.\<close>

definition Error :: "string \<Rightarrow> js_error" where
  "Error message =
     \<lparr>err_message = message, err_statusCode = None, err_code = None, err_name = ''Error''\<rparr>"

text \<open>
  \<^verbatim>\<open>new Date(v)\<close>: a \<^verbatim>\<open>Date\<close> is copied, text is parsed, any other primitive is
  taken as a number of milliseconds, and an object is first converted to its text.
\<close>

definition TimeClip :: "jsnum \<Rightarrow> int option" where
  "TimeClip n =
     (case n of
        NaN \<Rightarrow> None
      | Num k \<Rightarrow> if \<bar>k\<bar> > 8640000000000000 then None else Some k)"

fun new_Date :: "platform \<Rightarrow> jsval \<Rightarrow> int option" where
  "new_Date p (JDate t) = t"
| "new_Date p (JOid h) = Date_parse p h"
| "new_Date p (JSON JNull) = Some 0"
| "new_Date p (JSON (JBool b)) = Some (if b then 1 else 0)"
| "new_Date p (JSON (JNum n)) = TimeClip n"
| "new_Date p (JSON (JStr s)) = Date_parse p s"
| "new_Date p (JSON (JArr xs)) = Date_parse p (ToString (JArr xs))"
| "new_Date p (JSON (JObj kvs)) = Date_parse p (ToString (JObj kvs))"

section \<open>The validator (\<^verbatim>\<open>src/utils/validator.js\<close>)\<close>

text \<open>
  A field counts as missing when it is falsy or is text that is empty after trimming.
  The loop collects every such field, in the order of the required list.
\<close>

definition is_missing :: "jsobj \<Rightarrow> string \<Rightarrow> bool" where
  "is_missing data field =
     (if truthy (data field)
      then (case data field of Some (JSON (JStr s)) \<Rightarrow> trim s = [] | _ \<Rightarrow> False)
      else True)"

fun missing_loop :: "jsobj \<Rightarrow> string list \<Rightarrow> string list \<Rightarrow> string list" where
  "missing_loop data [] missingFields = missingFields"
| "missing_loop data (field # rest) missingFields =
     missing_loop data rest
       (if is_missing data field then missingFields @ [field] else missingFields)"

definition validateRequiredFields :: "jsobj \<Rightarrow> string list \<Rightarrow> js_error + unit" where
  "validateRequiredFields data requiredFields =
     (let missingFields = missing_loop data requiredFields []
      in if length missingFields > 0
         then Inl (APIError (''Missing required fields: '' @ join '', '' missingFields) 400)
         else Inr ())"

definition requiredFields :: "string list" where
  "requiredFields =
     [''name'', ''tagline'', ''schedule'', ''description'', ''moderator'', ''category'',
      ''sub_category'', ''rigor_rank'']"

definition check_rigor_rank :: "jsobj \<Rightarrow> js_error + unit" where
  "check_rigor_rank eventData =
     (if eventData ''rigor_rank'' \<noteq> None
      then (let rigorRank = parseInt_val (eventData ''rigor_rank'')
            in if isNaN rigorRank
               then Inl (APIError ''rigor_rank must be a valid integer'' 400)
               else Inr ())
      else Inr ())"

definition check_schedule :: "platform \<Rightarrow> jsobj \<Rightarrow> js_error + unit" where
  "check_schedule p eventData =
     (case eventData ''schedule'' of
        None \<Rightarrow> Inr ()
      | Some v \<Rightarrow>
          if truthy (Some v)
          then (let scheduleDate = new_Date p v
                in if scheduleDate = None
                   then Inl (APIError ''schedule must be a valid date/time'' 400)
                   else Inr ())
          else Inr ())"

definition check_attendees :: "jsobj \<Rightarrow> js_error + unit" where
  "check_attendees eventData =
     (if truthy (eventData ''attendees'')
      then (if \<not> isArray (eventData ''attendees'')
            then Inl (APIError ''attendees must be an array of user IDs'' 400)
            else Inr ())
      else Inr ())"

text \<open>
  \<^verbatim>\<open>validateEventData(eventData, isUpdate)\<close>: the first failing check throws, so the
  later ones do not run.
\<close>

definition validateEventData :: "platform \<Rightarrow> jsobj \<Rightarrow> bool \<Rightarrow> js_error + unit" where
  "validateEventData p eventData isUpdate =
     (case (if \<not> isUpdate then validateRequiredFields eventData requiredFields else Inr ()) of
        Inl e \<Rightarrow> Inl e
      | Inr _ \<Rightarrow>
          (case check_rigor_rank eventData of
             Inl e \<Rightarrow> Inl e
           | Inr _ \<Rightarrow>
               (case check_schedule p eventData of
                  Inl e \<Rightarrow> Inl e
                | Inr _ \<Rightarrow> check_attendees eventData)))"

text \<open>
  \<^verbatim>\<open>validatePagination(limit, page)\<close>; a query parameter is text or absent, and
  \<^verbatim>\<open>parseInt(undefined)\<close> reads the text \<^verbatim>\<open>undefined\<close>.
\<close>

record pagination_params =
  limit :: int
  page :: int
  skip :: int

definition query_text :: "string option \<Rightarrow> jsval option" where
  "query_text q = map_option Text q"

definition resolve_limit :: "string option \<Rightarrow> int" where
  "resolve_limit limit_text = num_or (parseInt_val (query_text limit_text)) 10"

definition resolve_page :: "string option \<Rightarrow> int" where
  "resolve_page page_text = num_or (parseInt_val (query_text page_text)) 1"

definition validatePagination :: "string option \<Rightarrow> string option \<Rightarrow> js_error + pagination_params" where
  "validatePagination limit_text page_text =
     (let parsedLimit = resolve_limit limit_text;
          parsedPage = resolve_page page_text
      in if parsedLimit < 1 \<or> parsedLimit > 100
         then Inl (APIError ''Limit must be between 1 and 100'' 400)
         else if parsedPage < 1
         then Inl (APIError ''Page must be greater than 0'' 400)
         else Inr \<lparr>limit = parsedLimit, page = parsedPage, skip = (parsedPage - 1) * parsedLimit\<rparr>)"

section \<open>Responses and the error handler (\<^verbatim>\<open>src/middleware/errorHandler.js\<close>)\<close>

record pagination =
  currentPage :: int
  totalPages :: int
  totalEvents :: int
  eventsPerPage :: int
  hasNextPage :: bool
  hasPrevPage :: bool

datatype payload =
    NoData
  | Event jsobj
  | Events "jsobj list"
  | Created jsval jsobj

text \<open>
  The JSON envelope \<^verbatim>\<open>{success, message?, data?, error?, pagination?}\<close> with its HTTP
  status. The \<^verbatim>\<open>stack\<close> property added in development mode is left out.
\<close>

record response =
  status :: nat
  success :: bool
  error :: "string option"
  message :: "string option"
  data :: payload
  pagination :: "pagination option"

definition failure :: "nat \<Rightarrow> string \<Rightarrow> response" where
  "failure statusCode text =
     \<lparr>status = statusCode, success = False, error = Some text, message = None,
      data = NoData, pagination = None\<rparr>"

text \<open>
  \<^verbatim>\<open>errorHandler\<close>: the status is \<^verbatim>\<open>err.statusCode || 500\<close>, then overridden for
  the upload library's error codes and for the two error names.
\<close>

definition errorHandler :: "js_error \<Rightarrow> response" where
  "errorHandler err =
     (let message = err_message err;
          statusCode = (case err_statusCode err of
                          None \<Rightarrow> 500
                        | Some c \<Rightarrow> if c = 0 then 500 else c);
          (message, statusCode) =
            (if err_code err = Some ''LIMIT_FILE_SIZE''
             then (''File size too large. Maximum size is 5MB'', 400)
             else (message, statusCode));
          (message, statusCode) =
            (if err_code err = Some ''LIMIT_UNEXPECTED_FILE''
             then (''Too many files or unexpected field name'', 400)
             else (message, statusCode));
          (message, statusCode) =
            (if err_name err = ''MongoError''
             then (''Database error occurred'', 500)
             else (message, statusCode));
          (message, statusCode) =
            (if err_name err = ''ValidationError''
             then (if err_message err = [] then ''Validation failed'' else err_message err, 400)
             else (message, statusCode))
      in failure statusCode (if message = [] then ''Internal server error'' else message))"

text \<open>
  A handler body runs inside \<^verbatim>\<open>try { ... } catch (error) { next(error) }\<close>, and
  \<^verbatim>\<open>next(error)\<close> ends in \<open>errorHandler\<close>.
\<close>

definition respond :: "js_error + response \<Rightarrow> response" where
  "respond r = (case r of Inl err \<Rightarrow> errorHandler err | Inr res \<Rightarrow> res)"

section \<open>The database (\<^verbatim>\<open>src/config/database.js\<close>)\<close>

text \<open>
  A collection is the list of its documents; a database maps collection names to
  collections; the module-level handle \<^verbatim>\<open>db\<close> is \<open>None\<close> before
  \<^verbatim>\<open>connectDB\<close> has run. Field names are plain property names: names with dots,
  which the store reads as paths, are outside the model, and so are failures of the
  connection.
\<close>

type_synonym collection = "jsobj list"

type_synonym database = "string \<Rightarrow> collection"

definition getDB :: "database option \<Rightarrow> js_error + database" where
  "getDB db =
     (case db of
        None \<Rightarrow> Inl (Error ''Database not initialized. Call connectDB first.'')
      | Some d \<Rightarrow> Inr d)"

definition getCollection :: "database option \<Rightarrow> string \<Rightarrow> js_error + collection" where
  "getCollection db collectionName =
     (case getDB db of Inl err \<Rightarrow> Inl err | Inr d \<Rightarrow> Inr (d collectionName))"

text \<open>
  \<^verbatim>\<open>toObjectId\<close>: both driver calls sit inside the \<^verbatim>\<open>try\<close>, and the
  \<^verbatim>\<open>catch\<close> returns \<^verbatim>\<open>null\<close> (\<open>Inr None\<close>). The result is a sum so that
  an exception leaving the function would be \<open>Inl\<close>.
\<close>

definition toObjectId :: "platform \<Rightarrow> string \<Rightarrow> js_error + string option" where
  "toObjectId p id_text =
     (case (case ObjectId_isValid p id_text of
              Inl err \<Rightarrow> Inl err
            | Inr valid \<Rightarrow>
                if valid
                then (case ObjectId_new p id_text of
                        Inl err \<Rightarrow> Inl err
                      | Inr oid \<Rightarrow> Inr (Some oid))
                else Inr None) of
        Inl err \<Rightarrow> Inr None
      | Inr r \<Rightarrow> Inr r)"

text \<open>The driver operations the handlers call.\<close>

definition has_id :: "string \<Rightarrow> jsobj \<Rightarrow> bool" where
  "has_id oid doc \<longleftrightarrow> doc ''_id'' = Some (JOid oid)"

definition findOne :: "collection \<Rightarrow> string \<Rightarrow> jsobj option" where
  "findOne coll oid = find (has_id oid) coll"

text \<open>
  \<^verbatim>\<open>insertOne\<close> gives the document a fresh identifier unless it carries an
  \<^verbatim>\<open>_id\<close> of its own, and fails on a duplicate key.
\<close>

definition insertOne :: "string \<Rightarrow> collection \<Rightarrow> jsobj \<Rightarrow> js_error + jsval \<times> jsobj \<times> collection" where
  "insertOne fresh coll doc =
     (let (insertedId, doc') =
            (case doc ''_id'' of
               None \<Rightarrow> (JOid fresh, doc(''_id'' \<mapsto> JOid fresh))
             | Some v \<Rightarrow> if v = JSON JNull then (JOid fresh, doc(''_id'' \<mapsto> JOid fresh))
                         else (v, doc))
      in if list_ex (\<lambda>d. d ''_id'' = Some insertedId) coll
         then Inl (Error ''E11000 duplicate key error collection'')
         else Inr (insertedId, doc', coll @ [doc']))"

text \<open>
  \<^verbatim>\<open>findOneAndUpdate({_id}, {$set: updateData}, {returnDocument: 'after'})\<close>: the
  first document with the identifier gets every field of \<open>updateData\<close>, its other
  fields stay; the result is the document after the update, or \<^verbatim>\<open>null\<close> when no
  document matched. The store refuses to change \<^verbatim>\<open>_id\<close>.
\<close>

fun update_first :: "(jsobj \<Rightarrow> bool) \<Rightarrow> (jsobj \<Rightarrow> jsobj) \<Rightarrow> collection \<Rightarrow> jsobj option \<times> collection" where
  "update_first P f [] = (None, [])"
| "update_first P f (d # ds) =
     (if P d then (Some (f d), f d # ds)
      else (case update_first P f ds of (r, ds') \<Rightarrow> (r, d # ds')))"

definition findOneAndUpdate :: "collection \<Rightarrow> string \<Rightarrow> jsobj \<Rightarrow> js_error + jsobj option \<times> collection" where
  "findOneAndUpdate coll oid updateData =
     (if list_ex (has_id oid) coll \<and> updateData ''_id'' \<noteq> None
         \<and> updateData ''_id'' \<noteq> Some (JOid oid)
      then Inl (Error ''Performing an update on the path _id would modify the immutable field _id'')
      else Inr (update_first (has_id oid) (\<lambda>d. d ++ updateData) coll))"

section \<open>The controllers (\<^verbatim>\<open>src/controllers/eventController.js\<close>)\<close>

definition COLLECTION_NAME :: string where
  "COLLECTION_NAME = ''events''"

record query =
  query_id :: "string option"
  query_type :: "string option"
  query_limit :: "string option"
  query_page :: "string option"

definition getEventById :: "platform \<Rightarrow> database option \<Rightarrow> query \<Rightarrow> response" where
  "getEventById p db req = respond
     (if \<not> truthy (query_text (query_id req))
      then Inl (APIError ''Event ID is required'' 400)
      else
        (case toObjectId p (case query_id req of None \<Rightarrow> [] | Some i \<Rightarrow> i) of
           Inl err \<Rightarrow> Inl err
         | Inr None \<Rightarrow> Inl (APIError ''Invalid event ID format'' 400)
         | Inr (Some objectId) \<Rightarrow>
             (case getCollection db COLLECTION_NAME of
                Inl err \<Rightarrow> Inl err
              | Inr eventsCollection \<Rightarrow>
                  (case findOne eventsCollection objectId of
                     None \<Rightarrow> Inl (APIError ''Event not found'' 404)
                   | Some event \<Rightarrow>
                       Inr \<lparr>status = 200, success = True, error = None, message = None,
                            data = Event event, pagination = None\<rparr>))))"

text \<open>
  \<^verbatim>\<open>Math.ceil(totalEvents / validatedLimit)\<close> is a division of numbers followed by
  rounding up; the limit is between 1 and 100 here, and for the sizes a collection can
  have the floating-point quotient rounds up to the same integer as the exact one.
\<close>

definition Math_ceil_div :: "int \<Rightarrow> int \<Rightarrow> int" where
  "Math_ceil_div a b = \<lceil>real_of_int a / real_of_int b\<rceil>"

definition getLatestEvents :: "platform \<Rightarrow> database option \<Rightarrow> query \<Rightarrow> response" where
  "getLatestEvents p db req = respond
     (if query_type req \<noteq> Some ''latest''
      then Inl (APIError ''Invalid type parameter. Use type=latest'' 400)
      else
        (case validatePagination (query_limit req) (query_page req) of
           Inl err \<Rightarrow> Inl err
         | Inr v \<Rightarrow>
             (case getCollection db COLLECTION_NAME of
                Inl err \<Rightarrow> Inl err
              | Inr eventsCollection \<Rightarrow>
                  (let validatedLimit = limit v;
                       validatedPage = page v;
                       totalEvents = int (length eventsCollection);
                       events = take (nat validatedLimit)
                                  (drop (nat (skip v)) (sort_desc p ''schedule'' eventsCollection));
                       totalPages = Math_ceil_div totalEvents validatedLimit
                   in Inr \<lparr>status = 200, success = True, error = None, message = None,
                           data = Events events,
                           pagination = Some
                             \<lparr>currentPage = validatedPage,
                              totalPages = totalPages,
                              totalEvents = totalEvents,
                              eventsPerPage = validatedLimit,
                              hasNextPage = validatedPage < totalPages,
                              hasPrevPage = validatedPage > 1\<rparr>\<rparr>))))"

text \<open>
  A request body is the list of its properties, each name with a JSON value (a form
  field is a JSON string); \<open>of_body\<close> is the copy \<^verbatim>\<open>{ ...req.body }\<close> the
  handlers work on. Below are the type conversions the create and the update handler
  apply to it. Each is guarded by the truthiness of the field, so an empty text stays
  as it is.
\<close>

type_synonym body = "(string \<times> json) list"

definition of_body :: "body \<Rightarrow> jsobj" where
  "of_body body = map_of (map (\<lambda>(k, v). (k, JSON v)) body)"

text \<open>The same request body without one of its properties.\<close>

definition remove_field :: "string \<Rightarrow> body \<Rightarrow> body" where
  "remove_field k body = filter (\<lambda>(k', v). k' \<noteq> k) body"

definition convert_attendees :: "platform \<Rightarrow> jsobj \<Rightarrow> js_error + jsobj" where
  "convert_attendees p eventData =
     (case eventData ''attendees'' of
        Some (JSON (JStr s)) \<Rightarrow>
          (case JSON_parse p s of
             None \<Rightarrow> Inl (APIError ''Invalid attendees format. Must be a JSON array'' 400)
           | Some v \<Rightarrow> Inr (eventData(''attendees'' \<mapsto> JSON v)))
      | _ \<Rightarrow> Inr eventData)"

definition default_attendees :: "jsobj \<Rightarrow> jsobj" where
  "default_attendees eventData =
     (if \<not> truthy (eventData ''attendees'')
      then eventData(''attendees'' \<mapsto> JSON (JArr []))
      else eventData)"

definition convert_int :: "string \<Rightarrow> jsobj \<Rightarrow> jsobj" where
  "convert_int field eventData =
     (if truthy (eventData field)
      then eventData(field \<mapsto> Number (parseInt_val (eventData field)))
      else eventData)"

definition convert_schedule :: "platform \<Rightarrow> jsobj \<Rightarrow> jsobj" where
  "convert_schedule p eventData =
     (case eventData ''schedule'' of
        None \<Rightarrow> eventData
      | Some v \<Rightarrow>
          if truthy (Some v) then eventData(''schedule'' \<mapsto> JDate (new_Date p v))
          else eventData)"

text \<open>
  \<^verbatim>\<open>createEvent\<close>. \<open>now1\<close> and \<open>now2\<close> are the two readings of the clock,
  \<open>fresh\<close> the identifier the driver would generate, and \<open>req_file\<close> the path
  in \<^verbatim>\<open>req.file\<close>, if an image was uploaded. The handler returns its response and
  the database handle after it; \<^verbatim>\<open>getCollection\<close> is \<open>getDB\<close> followed by the
  lookup of the collection.
\<close>

definition normalize_create :: "platform \<Rightarrow> body \<Rightarrow> js_error + jsobj" where
  "normalize_create p body =
     (let eventData = of_body body
      in case (if truthy (eventData ''attendees'') \<and> is_string (eventData ''attendees'')
               then convert_attendees p eventData
               else Inr (default_attendees eventData)) of
           Inl err \<Rightarrow> Inl err
         | Inr eventData \<Rightarrow>
             Inr (convert_schedule p (convert_int ''rigor_rank'' (convert_int ''uid'' eventData))))"

definition stamp_create :: "int \<Rightarrow> int \<Rightarrow> jsobj \<Rightarrow> jsobj" where
  "stamp_create now1 now2 eventData =
     (let eventData = eventData(''type'' \<mapsto> Text ''event'');
          eventData = (if truthy (eventData ''uid'') then eventData
                       else eventData(''uid'' \<mapsto> Number (Num 18)));
          eventData = eventData(''created_at'' \<mapsto> JDate (Some now1))
      in eventData(''updated_at'' \<mapsto> JDate (Some now2)))"

definition createEvent ::
  "platform \<Rightarrow> int \<Rightarrow> int \<Rightarrow> string \<Rightarrow> database option \<Rightarrow> body \<Rightarrow> string option
     \<Rightarrow> response \<times> database option" where
  "createEvent p now1 now2 fresh db body req_file =
     (case normalize_create p body of
        Inl err \<Rightarrow> (errorHandler err, db)
      | Inr eventData \<Rightarrow>
          (case req_file of
             None \<Rightarrow> (errorHandler (APIError ''Event image is required'' 400), db)
           | Some path \<Rightarrow>
               (let eventData = eventData(''image'' \<mapsto> Text path)
                in case validateEventData p eventData False of
                     Inl err \<Rightarrow> (errorHandler err, db)
                   | Inr _ \<Rightarrow>
                       (let eventData = stamp_create now1 now2 eventData
                        in case getDB db of
                             Inl err \<Rightarrow> (errorHandler err, db)
                           | Inr d \<Rightarrow>
                               (case insertOne fresh (d COLLECTION_NAME) eventData of
                                  Inl err \<Rightarrow> (errorHandler err, db)
                                | Inr (insertedId, doc, coll) \<Rightarrow>
                                    (\<lparr>status = 201, success = True, error = None,
                                      message = Some ''Event created successfully'',
                                      data = Created insertedId doc, pagination = None\<rparr>,
                                     Some (d(COLLECTION_NAME := coll))))))))"

text \<open>
  \<^verbatim>\<open>updateEvent\<close>: the identifier, the empty-update check, the same conversions on
  the fields that were sent, the time stamp, and the write.
\<close>

definition normalize_update :: "platform \<Rightarrow> jsobj \<Rightarrow> js_error + jsobj" where
  "normalize_update p updateData =
     (case (if truthy (updateData ''attendees'') \<and> is_string (updateData ''attendees'')
            then convert_attendees p updateData
            else Inr updateData) of
        Inl err \<Rightarrow> Inl err
      | Inr updateData \<Rightarrow>
          Inr (convert_int ''uid'' (convert_schedule p (convert_int ''rigor_rank'' updateData))))"

definition updateEvent ::
  "platform \<Rightarrow> int \<Rightarrow> database option \<Rightarrow> string \<Rightarrow> body \<Rightarrow> string option
     \<Rightarrow> response \<times> database option" where
  "updateEvent p now db id_param body req_file =
     (let updateData = of_body body
      in case toObjectId p id_param of
           Inl err \<Rightarrow> (errorHandler err, db)
         | Inr None \<Rightarrow> (errorHandler (APIError ''Invalid event ID format'' 400), db)
         | Inr (Some objectId) \<Rightarrow>
             if body = [] \<and> req_file = None
             then (errorHandler (APIError ''No update data provided'' 400), db)
             else
               (let updateData = (case req_file of
                                    None \<Rightarrow> updateData
                                  | Some path \<Rightarrow> updateData(''image'' \<mapsto> Text path))
                in case normalize_update p updateData of
                     Inl err \<Rightarrow> (errorHandler err, db)
                   | Inr updateData \<Rightarrow>
                       (let updateData = updateData(''updated_at'' \<mapsto> JDate (Some now))
                        in case getDB db of
                             Inl err \<Rightarrow> (errorHandler err, db)
                           | Inr d \<Rightarrow>
                               (case findOneAndUpdate (d COLLECTION_NAME) objectId updateData of
                                  Inl err \<Rightarrow> (errorHandler err, db)
                                | Inr (None, coll) \<Rightarrow>
                                    (errorHandler (APIError ''Event not found'' 404), db)
                                | Inr (Some result, coll) \<Rightarrow>
                                    (\<lparr>status = 200, success = True, error = None,
                                      message = Some ''Event updated successfully'',
                                      data = Event result, pagination = None\<rparr>,
                                     Some (d(COLLECTION_NAME := coll)))))))"

section \<open>The route \<^verbatim>\<open>GET /events\<close> (\<^verbatim>\<open>src/routes/eventRoutes.js\<close>)\<close>

text \<open>The dispatcher returns the handler it called, if any, with the response.\<close>

datatype handler = GetEventById | GetLatestEvents

definition get_events :: "platform \<Rightarrow> database option \<Rightarrow> query \<Rightarrow> handler option \<times> response" where
  "get_events p db req =
     (if truthy (query_text (query_id req))
      then (Some GetEventById, getEventById p db req)
      else if query_type req = Some ''latest''
      then (Some GetLatestEvents, getLatestEvents p db req)
      else (None, failure 400
              ''Invalid query parameters. Use either ?id=<event_id> or ?type=latest&limit=<n>&page=<n>''))"

section \<open>A concrete platform\<close>

text \<open>
  One platform on which the handlers can be run: a date parser for the two UTC forms
  \<^verbatim>\<open>YYYY-MM-DD\<close> and \<^verbatim>\<open>YYYY-MM-DDTHH:mm:ss.sssZ\<close>, a JSON decoder for the
  grammar without fractions, exponents and \<^verbatim>\<open>\u\<close> escapes, identifiers of 24
  hexadecimal digits, and a stable sort that puts valid dates first, latest first.
\<close>

definition dec :: "string \<Rightarrow> int option" where
  "dec s =
     (if s \<noteq> [] \<and> list_all (is_radix_digit 10) s
      then Some (int (foldl (\<lambda>a c. a * 10 + digit_value c) 0 s))
      else None)"

definition leap_year :: "int \<Rightarrow> bool" where
  "leap_year y \<longleftrightarrow> y mod 4 = 0 \<and> (y mod 100 \<noteq> 0 \<or> y mod 400 = 0)"

definition days_in_month :: "int \<Rightarrow> int \<Rightarrow> int" where
  "days_in_month y m =
     (if m = 2 then (if leap_year y then 29 else 28)
      else if m = 4 \<or> m = 6 \<or> m = 9 \<or> m = 11 then 30
      else 31)"

definition days_from_civil :: "int \<Rightarrow> int \<Rightarrow> int \<Rightarrow> int" where
  "days_from_civil y m d =
     (let y' = (if m \<le> 2 then y - 1 else y);
          era = y' div 400;
          yoe = y' - era * 400;
          doy = (153 * (if m > 2 then m - 3 else m + 9) + 2) div 5 + d - 1;
          doe = yoe * 365 + yoe div 4 - yoe div 100 + doy
      in era * 146097 + doe - 719468)"

definition iso_date :: "string \<Rightarrow> int option" where
  "iso_date s =
     (if length s = 10 \<and> s ! 4 = CHR ''-'' \<and> s ! 7 = CHR ''-''
      then (case (dec (take 4 s), dec (take 2 (drop 5 s)), dec (drop 8 s)) of
              (Some y, Some m, Some d) \<Rightarrow>
                if 1 \<le> m \<and> m \<le> 12 \<and> 1 \<le> d \<and> d \<le> days_in_month y m
                then Some (days_from_civil y m d * 86400000)
                else None
            | _ \<Rightarrow> None)
      else None)"

definition iso_time :: "string \<Rightarrow> int option" where
  "iso_time s =
     (if length s = 13 \<and> s ! 2 = CHR '':'' \<and> s ! 5 = CHR '':'' \<and> s ! 8 = CHR ''.''
         \<and> s ! 12 = CHR ''Z''
      then (case (dec (take 2 s), dec (take 2 (drop 3 s)), dec (take 2 (drop 6 s)),
                  dec (take 3 (drop 9 s))) of
              (Some h, Some mi, Some sec, Some ms) \<Rightarrow>
                if h < 24 \<and> mi < 60 \<and> sec < 60
                then Some (((h * 60 + mi) * 60 + sec) * 1000 + ms)
                else None
            | _ \<Rightarrow> None)
      else None)"

definition iso_Date_parse :: "string \<Rightarrow> int option" where
  "iso_Date_parse s =
     (if length s = 10 then iso_date s
      else if length s = 24 \<and> s ! 10 = CHR ''T''
      then (case (iso_date (take 10 s), iso_time (drop 11 s)) of
              (Some d, Some t) \<Rightarrow> Some (d + t)
            | _ \<Rightarrow> None)
      else None)"

definition json_ws :: "string \<Rightarrow> string" where
  "json_ws = dropWhile (\<lambda>c. (of_char c :: nat) \<in> {32, 9, 10, 13})"

definition json_escape :: "char \<Rightarrow> char option" where
  "json_escape c =
     (if c = CHR 0x22 \<or> c = CHR 0x5C \<or> c = CHR ''/'' then Some c
      else if c = CHR ''b'' then Some (CHR 0x08)
      else if c = CHR ''f'' then Some (CHR 0x0C)
      else if c = CHR ''n'' then Some (CHR 0x0A)
      else if c = CHR ''r'' then Some (CHR 0x0D)
      else if c = CHR ''t'' then Some (CHR 0x09)
      else None)"

fun json_chars :: "string \<Rightarrow> (string \<times> string) option" where
  "json_chars [] = None"
| "json_chars [c] = (if c = CHR 0x22 then Some ([], []) else None)"
| "json_chars (c # c' # cs) =
     (if c = CHR 0x22 then Some ([], c' # cs)
      else if c = CHR 0x5C
      then (case json_escape c' of
              None \<Rightarrow> None
            | Some x \<Rightarrow> map_option (\<lambda>(str, rest). (x # str, rest)) (json_chars cs))
      else if (of_char c :: nat) < 32 then None
      else map_option (\<lambda>(str, rest). (c # str, rest)) (json_chars (c' # cs)))"

definition json_number :: "string \<Rightarrow> (json \<times> string) option" where
  "json_number s =
     (let (sign, s') = (case s of
                          [] \<Rightarrow> (1, [])
                        | c # r \<Rightarrow> if c = CHR ''-'' then (- 1, r) else (1 :: int, s));
          ds = takeWhile (is_radix_digit 10) s';
          rest = dropWhile (is_radix_digit 10) s'
      in if ds = [] \<or> (length ds > 1 \<and> hd ds = CHR ''0'') then None
         else if rest \<noteq> [] \<and> (hd rest = CHR ''.'' \<or> hd rest = CHR ''e'' \<or> hd rest = CHR ''E'')
         then None
         else Some (JNum (Num (sign * int (foldl (\<lambda>a c. a * 10 + digit_value c) 0 ds))), rest))"

fun json_value :: "nat \<Rightarrow> string \<Rightarrow> (json \<times> string) option"
  and json_elements :: "nat \<Rightarrow> string \<Rightarrow> (json list \<times> string) option"
  and json_members :: "nat \<Rightarrow> string \<Rightarrow> ((string \<times> json) list \<times> string) option"
where
  "json_value 0 s = None"
| "json_value (Suc n) s =
     (case json_ws s of
        [] \<Rightarrow> None
      | c # r \<Rightarrow>
          if c = CHR ''[''
          then (case json_ws r of
                  [] \<Rightarrow> None
                | c' # r' \<Rightarrow>
                    if c' = CHR '']'' then Some (JArr [], r')
                    else map_option (\<lambda>(xs, t). (JArr xs, t)) (json_elements n r))
          else if c = CHR ''{''
          then (case json_ws r of
                  [] \<Rightarrow> None
                | c' # r' \<Rightarrow>
                    if c' = CHR ''}'' then Some (JObj [], r')
                    else map_option (\<lambda>(kvs, t). (JObj kvs, t)) (json_members n r))
          else if c = CHR 0x22 then map_option (\<lambda>(str, t). (JStr str, t)) (json_chars r)
          else if take 4 (c # r) = ''null'' then Some (JNull, drop 4 (c # r))
          else if take 4 (c # r) = ''true'' then Some (JBool True, drop 4 (c # r))
          else if take 5 (c # r) = ''false'' then Some (JBool False, drop 5 (c # r))
          else json_number (c # r))"
| "json_elements 0 s = None"
| "json_elements (Suc n) s =
     (case json_value n s of
        None \<Rightarrow> None
      | Some (x, t) \<Rightarrow>
          (case json_ws t of
             [] \<Rightarrow> None
           | c # r \<Rightarrow>
               if c = CHR '','' then map_option (\<lambda>(xs, u). (x # xs, u)) (json_elements n r)
               else if c = CHR '']'' then Some ([x], r)
               else None))"
| "json_members 0 s = None"
| "json_members (Suc n) s =
     (case json_ws s of
        [] \<Rightarrow> None
      | q # r \<Rightarrow>
          if q \<noteq> CHR 0x22 then None
          else (case json_chars r of
                  None \<Rightarrow> None
                | Some (k, t) \<Rightarrow>
                    (case json_ws t of
                       [] \<Rightarrow> None
                     | c # r' \<Rightarrow>
                         if c \<noteq> CHR '':'' then None
                         else (case json_value n r' of
                                 None \<Rightarrow> None
                               | Some (x, u) \<Rightarrow>
                                   (case json_ws u of
                                      [] \<Rightarrow> None
                                    | c' # r'' \<Rightarrow>
                                        if c' = CHR '',''
                                        then map_option (\<lambda>(kvs, w). ((k, x) # kvs, w))
                                               (json_members n r'')
                                        else if c' = CHR ''}'' then Some ([(k, x)], r'')
                                        else None)))))"

text \<open>
  Every call that uses up one unit of fuel has read a character within the two calls
  before it, so twice the length of the text is enough fuel.
\<close>

definition json_decode :: "string \<Rightarrow> json option" where
  "json_decode s =
     (case json_value (2 * length s + 2) s of
        None \<Rightarrow> None
      | Some (v, rest) \<Rightarrow> if json_ws rest = [] then Some v else None)"

definition hex24 :: "string \<Rightarrow> bool" where
  "hex24 s \<longleftrightarrow> length s = 24 \<and> list_all (is_radix_digit 16) s"

definition lower_hex :: "char \<Rightarrow> char" where
  "lower_hex c =
     (if 65 \<le> (of_char c :: nat) \<and> (of_char c :: nat) \<le> 70 then char_of (of_char c + 32 :: nat)
      else c)"

definition hex_ObjectId :: "string \<Rightarrow> js_error + string" where
  "hex_ObjectId s =
     (if hex24 s then Inr (map lower_hex s)
      else Inl (Error ''input must be a 24 character hex string, 12 byte Uint8Array, or an integer''))"

fun date_key :: "jsval option \<Rightarrow> int option" where
  "date_key (Some (JDate t)) = t"
| "date_key v = None"

fun later :: "int option \<Rightarrow> int option \<Rightarrow> bool" where
  "later (Some a) (Some b) = (a > b)"
| "later (Some a) None = True"
| "later None b = False"

fun insert_desc :: "string \<Rightarrow> jsobj \<Rightarrow> jsobj list \<Rightarrow> jsobj list" where
  "insert_desc field x [] = [x]"
| "insert_desc field x (y # ys) =
     (if later (date_key (y field)) (date_key (x field)) then y # insert_desc field x ys
      else x # y # ys)"

definition dates_desc :: "string \<Rightarrow> jsobj list \<Rightarrow> jsobj list" where
  "dates_desc field docs = foldr (insert_desc field) docs []"

definition node :: platform where
  "node =
     \<lparr>Date_parse = iso_Date_parse,
      JSON_parse = json_decode,
      ObjectId_isValid = (\<lambda>s. Inr (hex24 s)),
      ObjectId_new = hex_ObjectId,
      sort_desc = dates_desc\<rparr>"

section \<open>Sample data\<close>

text \<open>The create request of the README, a stored event, and a database holding it.\<close>

definition sample_body :: body where
  "sample_body =
     [(''name'', JStr ''Engineering Meetup''),
      (''tagline'', JStr ''Backend systems discussion''),
      (''schedule'', JStr ''2024-03-15T10:00:00.000Z''),
      (''description'', JStr ''Deep dive into distributed systems''),
      (''moderator'', JStr ''Jane Doe''),
      (''category'', JStr ''Technology''),
      (''sub_category'', JStr ''Backend Engineering''),
      (''rigor_rank'', JStr ''7'')]"

definition sample_id :: string where
  "sample_id = ''507f1f77bcf86cd799439011''"

definition sample_event :: jsobj where
  "sample_event =
     [''_id'' \<mapsto> JOid sample_id,
      ''type'' \<mapsto> Text ''event'',
      ''uid'' \<mapsto> Number (Num 18),
      ''name'' \<mapsto> Text ''Engineering Meetup'',
      ''tagline'' \<mapsto> Text ''Backend systems discussion'',
      ''schedule'' \<mapsto> JDate (Some 1710496800000),
      ''description'' \<mapsto> Text ''Deep dive into distributed systems'',
      ''image'' \<mapsto> Text ''uploads/image-1704744491234.jpg'',
      ''moderator'' \<mapsto> Text ''Jane Doe'',
      ''category'' \<mapsto> Text ''Technology'',
      ''sub_category'' \<mapsto> Text ''Backend Engineering'',
      ''rigor_rank'' \<mapsto> Number (Num 7),
      ''attendees'' \<mapsto> JSON (JArr [JStr ''user1'', JStr ''user2'']),
      ''created_at'' \<mapsto> JDate (Some 1704744491234),
      ''updated_at'' \<mapsto> JDate (Some 1704744491234)]"

definition database_of :: "collection \<Rightarrow> database option" where
  "database_of coll = Some (\<lambda>collectionName. if collectionName = ''events'' then coll else [])"

definition sample_db :: "database option" where
  "sample_db = database_of [sample_event]"

text \<open>
  A collection of \<open>n\<close> events that differ in their identifiers and schedules, the
  events collection behind a database handle, and a field of a document that was looked
  up.
\<close>

definition numbered_id :: "nat \<Rightarrow> string" where
  "numbered_id i = replicate (24 - length (digits i)) CHR ''0'' @ digits i"

definition numbered_events :: "nat \<Rightarrow> collection" where
  "numbered_events n =
     map (\<lambda>i. [''_id'' \<mapsto> JOid (numbered_id i), ''schedule'' \<mapsto> JDate (Some (int i))])
       [0..<n]"

definition events_of :: "database option \<Rightarrow> collection" where
  "events_of db = (case db of None \<Rightarrow> [] | Some d \<Rightarrow> d COLLECTION_NAME)"

definition field_of :: "string \<Rightarrow> jsobj option \<Rightarrow> jsval option" where
  "field_of k doc = (case doc of None \<Rightarrow> None | Some d \<Rightarrow> d k)"

section \<open>Notions of the specification\<close>

text \<open>
  The resolved limit and page in the words of the pagination rules: the text is parsed
  as an integer, and the default is taken if it is unparsable or absent.
\<close>

definition spec_resolve :: "int \<Rightarrow> string option \<Rightarrow> int" where
  "spec_resolve default_value t =
     (case parseInt_val (query_text t) of NaN \<Rightarrow> default_value | Num k \<Rightarrow> k)"

text \<open>
  Integer text, in the words of the pagination rules: an optional sign followed by
  decimal digits and nothing else.
\<close>

definition integer_text :: "string \<Rightarrow> bool" where
  "integer_text s =
     (case strip_sign s of (sign, ds) \<Rightarrow> ds \<noteq> [] \<and> list_all (is_radix_digit 10) ds)"

text \<open>
  A required field as the validator rules word it: absent, or text that is blank after
  trimming.
\<close>

definition absent_or_blank :: "jsobj \<Rightarrow> string \<Rightarrow> bool" where
  "absent_or_blank eventData field =
     (case eventData field of
        None \<Rightarrow> True
      | Some (JSON (JStr s)) \<Rightarrow> trim s = []
      | Some v \<Rightarrow> False)"

section \<open>Auxiliary facts\<close>

lemma parseInt_undefined: "parseInt ''undefined'' = NaN"
  by code_simp

lemma resolve_absent: "resolve_limit None = 10" "resolve_page None = 1"
  by (simp_all add: resolve_limit_def resolve_page_def query_text_def parseInt_undefined
        num_or_def)

lemma errorHandler_APIError:
  "m \<noteq> [] \<Longrightarrow> c \<noteq> 0 \<Longrightarrow> errorHandler (APIError m c) = failure c m"
  by (simp add: errorHandler_def APIError_def)

lemma errorHandler_Error: "m \<noteq> [] \<Longrightarrow> errorHandler (Error m) = failure 500 m"
  by (simp add: errorHandler_def Error_def)

lemma status_failure [simp]: "status (failure c m) = c"
  by (simp add: failure_def)

section \<open>The pagination resolver\<close>

text \<open>
  Claim C2 has the resolver reject exactly the inputs whose resolved limit lies outside
  \<open>[1, 100]\<close> or whose resolved page is below 1, and return the resolved limit
  otherwise. The code computes \<^verbatim>\<open>parseInt(limit) || 10\<close> and
  \<^verbatim>\<open>parseInt(page) || 1\<close>, and \<^verbatim>\<open>||\<close> replaces a zero as it replaces
  \<^verbatim>\<open>NaN\<close>: the limit text \<^verbatim>\<open>0\<close> and the page text \<^verbatim>\<open>0\<close> resolve to 0,
  which the rules reject, yet the request is accepted with limit 10 and page 1, although
  the checks that follow do reject a limit of -5 and a page of -1. For every other
  input, that is whenever neither text parses to zero, the resolver rejects exactly as
  the rules say and returns the resolved limit and page.
\<close>

theorem pagination_accepts_zero:
  "spec_resolve 10 (Some ''0'') = 0
   \<and> spec_resolve 1 (Some ''0'') = 0
   \<and> validatePagination (Some ''0'') (Some ''0'') = Inr \<lparr>limit = 10, page = 1, skip = 0\<rparr>
   \<and> validatePagination (Some ''-5'') (Some ''2'')
       = Inl (APIError ''Limit must be between 1 and 100'' 400)
   \<and> validatePagination (Some ''5'') (Some ''-1'')
       = Inl (APIError ''Page must be greater than 0'' 400)
   \<and> (parseInt_val (query_text l) \<noteq> Num 0 \<and> parseInt_val (query_text pg) \<noteq> Num 0
      \<longrightarrow> ((\<exists>e. validatePagination l pg = Inl e)
             \<longleftrightarrow> (spec_resolve 10 l < 1 \<or> spec_resolve 10 l > 100 \<or> spec_resolve 1 pg < 1))
          \<and> (\<forall>v. validatePagination l pg = Inr v
                \<longrightarrow> limit v = spec_resolve 10 l \<and> page v = spec_resolve 1 pg))"
proof -
  have closed: "spec_resolve 10 (Some ''0'') = 0" "spec_resolve 1 (Some ''0'') = 0"
    "validatePagination (Some ''0'') (Some ''0'') = Inr \<lparr>limit = 10, page = 1, skip = 0\<rparr>"
    "validatePagination (Some ''-5'') (Some ''2'')
       = Inl (APIError ''Limit must be between 1 and 100'' 400)"
    "validatePagination (Some ''5'') (Some ''-1'')
       = Inl (APIError ''Page must be greater than 0'' 400)"
    by (code_simp, code_simp, code_simp, code_simp, code_simp)
  have general: "parseInt_val (query_text l) \<noteq> Num 0 \<and> parseInt_val (query_text pg) \<noteq> Num 0
      \<longrightarrow> ((\<exists>e. validatePagination l pg = Inl e)
             \<longleftrightarrow> (spec_resolve 10 l < 1 \<or> spec_resolve 10 l > 100 \<or> spec_resolve 1 pg < 1))
          \<and> (\<forall>v. validatePagination l pg = Inr v
                \<longrightarrow> limit v = spec_resolve 10 l \<and> page v = spec_resolve 1 pg)"
    by (auto simp: validatePagination_def Let_def resolve_limit_def resolve_page_def
          num_or_def spec_resolve_def split: jsnum.splits)
  from closed general show ?thesis by simp
qed

theorem pagination_accepts_zero_witness:
  "validatePagination (Some ''0'') (Some ''0'') = Inr \<lparr>limit = 10, page = 1, skip = 0\<rparr>
   \<and> spec_resolve 10 (Some ''101'') = 101
   \<and> (\<exists>e. validatePagination (Some ''101'') (Some ''3'') = Inl e)"
proof -
  have a: "parseInt_val (query_text (Some ''101'')) \<noteq> Num 0"
    "parseInt_val (query_text (Some ''3'')) \<noteq> Num 0"
    "spec_resolve 10 (Some ''101'') = 101"
    by (code_simp, code_simp, code_simp)
  show ?thesis
    using pagination_accepts_zero [of "Some ''101''" "Some ''3''"] a by simp
qed

section \<open>Identifiers and the read-one handler\<close>

text \<open>
  Claim C7. Whatever the driver does on a text, \<open>toObjectId\<close> returns an identifier
  or \<^verbatim>\<open>null\<close> and lets no exception out; and when it returns \<^verbatim>\<open>null\<close> the
  read-one handler answers 400, whether or not the database is connected.
\<close>

theorem toObjectId_total:
  "(\<exists>r. toObjectId p s = Inr r)
   \<and> (toObjectId p s = Inr None \<longrightarrow>
        getEventById p db
          \<lparr>query_id = Some s, query_type = t, query_limit = l, query_page = pg\<rparr>
        = failure 400 (if s = [] then ''Event ID is required'' else ''Invalid event ID format''))"
  by (auto simp: toObjectId_def getEventById_def respond_def query_text_def
        errorHandler_APIError split: sum.splits option.splits)

theorem toObjectId_total_witness:
  "toObjectId node ''not-an-id'' = Inr None
   \<and> status (getEventById node None
        \<lparr>query_id = Some ''not-an-id'', query_type = None, query_limit = None,
         query_page = None\<rparr>) = 400"
proof -
  have h: "toObjectId node ''not-an-id'' = Inr None"
    by code_simp
  show ?thesis
    using toObjectId_total [of node "''not-an-id''" None None None None] h by simp
qed

section \<open>The list handler\<close>

text \<open>
  Claim C8. Every list request answered with 200 carries pagination metadata in which
  the number of events is the size of the collection, the page size and the page are
  the resolved limit and page, the number of pages is the quotient of the two rounded
  up, there is a next page exactly when the page is below the number of pages, and a
  previous page exactly when the page is above 1.
\<close>

theorem latest_pagination_metadata:
  assumes "status (getLatestEvents p db req) = 200"
  shows "\<exists>pg d. pagination (getLatestEvents p db req) = Some pg \<and> db = Some d
           \<and> totalEvents pg = int (length (d COLLECTION_NAME))
           \<and> eventsPerPage pg = resolve_limit (query_limit req)
           \<and> currentPage pg = resolve_page (query_page req)
           \<and> totalPages pg = \<lceil>real_of_int (totalEvents pg) / real_of_int (eventsPerPage pg)\<rceil>
           \<and> hasNextPage pg = (currentPage pg < totalPages pg)
           \<and> hasPrevPage pg = (currentPage pg > 1)"
  using assms
  by (auto simp: getLatestEvents_def respond_def errorHandler_APIError errorHandler_Error
        validatePagination_def Let_def getCollection_def getDB_def Math_ceil_div_def
        split: if_splits sum.splits option.splits)

theorem latest_pagination_metadata_witness:
  "status (getLatestEvents node (database_of (numbered_events 47))
      \<lparr>query_id = None, query_type = Some ''latest'', query_limit = Some ''5'',
       query_page = Some ''2''\<rparr>) = 200
   \<and> (\<exists>pg. pagination (getLatestEvents node (database_of (numbered_events 47))
               \<lparr>query_id = None, query_type = Some ''latest'', query_limit = Some ''5'',
                query_page = Some ''2''\<rparr>) = Some pg
          \<and> totalEvents pg = 47 \<and> totalPages pg = 10 \<and> hasNextPage pg \<and> hasPrevPage pg)"
proof -
  let ?db = "database_of (numbered_events 47)"
  let ?req = "\<lparr>query_id = None, query_type = Some ''latest'', query_limit = Some ''5'',
       query_page = Some ''2''\<rparr>"
  have ok: "status (getLatestEvents node ?db ?req) = 200"
    by code_simp
  have a: "resolve_limit (Some ''5'') = 5" "resolve_page (Some ''2'') = 2"
    by code_simp+
  have len: "\<And>d. ?db = Some d \<Longrightarrow> int (length (d COLLECTION_NAME)) = 47"
    by (auto simp: database_of_def COLLECTION_NAME_def numbered_events_def)
  from latest_pagination_metadata [OF ok] obtain pg d where
    pg: "pagination (getLatestEvents node ?db ?req) = Some pg" "?db = Some d"
      "totalEvents pg = int (length (d COLLECTION_NAME))"
      "eventsPerPage pg = resolve_limit (query_limit ?req)"
      "currentPage pg = resolve_page (query_page ?req)"
      "totalPages pg = \<lceil>real_of_int (totalEvents pg) / real_of_int (eventsPerPage pg)\<rceil>"
      "hasNextPage pg = (currentPage pg < totalPages pg)"
      "hasPrevPage pg = (currentPage pg > 1)"
    by blast
  have "totalEvents pg = 47" using pg len by simp
  moreover have "totalPages pg = 10" using pg a \<open>totalEvents pg = 47\<close> by simp
  moreover have "hasNextPage pg" "hasPrevPage pg" using pg a \<open>totalPages pg = 10\<close> by simp_all
  ultimately show ?thesis using ok pg by simp
qed

section \<open>The route\<close>

text \<open>
  Claim C10, as amended. A request with a non-empty \<^verbatim>\<open>id\<close> goes to the read-one
  handler whatever its \<^verbatim>\<open>type\<close> is, \<^verbatim>\<open>latest\<close> included; a request with no
  \<^verbatim>\<open>id\<close>, or an empty one, and a \<^verbatim>\<open>type\<close> other than \<^verbatim>\<open>latest\<close>
  gets the 400 answer of the route itself, and no handler is called.
\<close>

theorem get_events_dispatch:
  "(query_id req = Some i \<and> i \<noteq> [] \<longrightarrow>
      get_events p db req = (Some GetEventById, getEventById p db req))
   \<and> ((query_id req = None \<or> query_id req = Some []) \<and> query_type req \<noteq> Some ''latest'' \<longrightarrow>
        get_events p db req = (None, failure 400
          ''Invalid query parameters. Use either ?id=<event_id> or ?type=latest&limit=<n>&page=<n>''))"
  by (cases "query_id req") (auto simp: get_events_def query_text_def)

theorem get_events_dispatch_witness:
  "fst (get_events node sample_db
      \<lparr>query_id = Some ''not-an-id'', query_type = Some ''latest'', query_limit = None,
       query_page = None\<rparr>) = Some GetEventById
   \<and> fst (get_events node sample_db
      \<lparr>query_id = None, query_type = Some ''oldest'', query_limit = None,
       query_page = None\<rparr>) = None
   \<and> status (snd (get_events node sample_db
      \<lparr>query_id = None, query_type = Some ''oldest'', query_limit = None,
       query_page = None\<rparr>)) = 400"
  using get_events_dispatch [of "\<lparr>query_id = Some ''not-an-id'', query_type = Some ''latest'', query_limit = None,
       query_page = None\<rparr>" "''not-an-id''" node sample_db]
    get_events_dispatch [of "\<lparr>query_id = None, query_type = Some ''oldest'', query_limit = None,
       query_page = None\<rparr>" "[]" node sample_db]
  by simp

text \<open>
  The claim as stated covers every request that supplies an \<^verbatim>\<open>id\<close> parameter. The
  route tests the parameter for truthiness, so a request with the empty
  \<^verbatim>\<open>id\<close> and \<^verbatim>\<open>type=latest\<close> goes to the list handler.
\<close>

theorem empty_id_is_listed:
  "fst (get_events node sample_db
      \<lparr>query_id = Some [], query_type = Some ''latest'', query_limit = None,
       query_page = None\<rparr>) = Some GetLatestEvents
   \<and> status (snd (get_events node sample_db
      \<lparr>query_id = Some [], query_type = Some ''latest'', query_limit = None,
       query_page = None\<rparr>)) = 200"
  by code_simp

section \<open>Facts about the update handler\<close>

lemma of_body_lookup: "of_body body k = map_option JSON (map_of body k)"
  by (simp add: of_body_def map_of_map [unfolded comp_def, THEN fun_cong])

lemma convert_int_absent: "ed k = None \<Longrightarrow> convert_int f ed k = None"
  by (auto simp: convert_int_def)

lemma convert_schedule_absent: "ed k = None \<Longrightarrow> convert_schedule p ed k = None"
  by (auto simp: convert_schedule_def split: option.splits)

lemma convert_attendees_absent:
  "convert_attendees p ed = Inr ed' \<Longrightarrow> truthy (ed ''attendees'') \<Longrightarrow> ed k = None \<Longrightarrow> ed' k = None"
  by (auto simp: convert_attendees_def split: option.splits jsval.splits json.splits)

lemma normalize_update_absent:
  assumes "normalize_update p ud = Inr ud'" "ud k = None"
  shows "ud' k = None"
proof (cases "truthy (ud ''attendees'') \<and> is_string (ud ''attendees'')")
  case True
  then obtain a where a: "convert_attendees p ud = Inr a"
      and ud': "ud' = convert_int ''uid'' (convert_schedule p (convert_int ''rigor_rank'' a))"
    using assms(1) by (auto simp: normalize_update_def split: sum.splits)
  from convert_attendees_absent [OF a _ assms(2)] True have "a k = None" by simp
  then show ?thesis
    by (simp add: ud' convert_int_absent convert_schedule_absent)
next
  case False
  then have "ud' = convert_int ''uid'' (convert_schedule p (convert_int ''rigor_rank'' ud))"
    using assms(1) by (auto simp: normalize_update_def)
  then show ?thesis
    using assms(2) by (simp add: convert_int_absent convert_schedule_absent)
qed

lemma normalize_update_error:
  "normalize_update p ud = Inl err \<Longrightarrow>
     err = APIError ''Invalid attendees format. Must be a JSON array'' 400"
  by (auto simp: normalize_update_def convert_attendees_def
        split: if_splits sum.splits option.splits jsval.splits json.splits)

lemma toObjectId_Inr: "\<exists>r. toObjectId p s = Inr r"
  by (auto simp: toObjectId_def split: sum.splits)

lemma fst_update_first: "fst (update_first P f coll) = map_option f (find P coll)"
  by (induction coll) (auto split: prod.splits)

lemma find_update_first:
  "(\<And>d. P d \<Longrightarrow> P (f d)) \<Longrightarrow> find P (snd (update_first P f coll)) = map_option f (find P coll)"
  by (induction coll) (auto split: prod.splits)

lemma find_Some_list_ex: "find P coll = Some d \<Longrightarrow> list_ex P coll \<and> P d"
  by (induction coll) (auto split: if_splits)

lemma findOneAndUpdate_result:
  assumes "findOneAndUpdate coll oid ud = Inr (Some result, coll')"
  shows "\<exists>old. findOne coll oid = Some old \<and> result = old ++ ud
           \<and> findOne coll' oid = Some result"
proof -
  let ?f = "\<lambda>d. d ++ ud"
  have guard: "\<not> (list_ex (has_id oid) coll \<and> ud ''_id'' \<noteq> None \<and> ud ''_id'' \<noteq> Some (JOid oid))"
    and up: "update_first (has_id oid) ?f coll = (Some result, coll')"
    using assms by (auto simp: findOneAndUpdate_def split: if_splits)
  from up fst_update_first [of "has_id oid" ?f coll]
  obtain old where old: "find (has_id oid) coll = Some old" "result = old ++ ud"
    by (cases "find (has_id oid) coll") auto
  from find_Some_list_ex [OF old(1)] guard
  have id: "ud ''_id'' = None \<or> ud ''_id'' = Some (JOid oid)" by auto
  have keep: "\<And>d. has_id oid d \<Longrightarrow> has_id oid (d ++ ud)"
    using id by (auto simp: has_id_def map_add_def)
  from find_update_first [of "has_id oid" ?f coll, OF keep] up old
  have "find (has_id oid) coll' = Some result" by simp
  with old show ?thesis by (simp add: findOne_def)
qed

lemma errorHandler_status_APIError: "c \<noteq> 0 \<Longrightarrow> status (errorHandler (APIError m c)) = c"
  by (simp add: errorHandler_def APIError_def)

lemma errorHandler_status_Error: "status (errorHandler (Error m)) = 500"
  by (simp add: errorHandler_def Error_def)

lemma normalize_update_error_status:
  "normalize_update p ud = Inl err \<Longrightarrow> status (errorHandler err) = 400"
  by (auto dest!: normalize_update_error simp: errorHandler_status_APIError)

lemma findOneAndUpdate_error_status:
  "findOneAndUpdate coll oid ud = Inl err \<Longrightarrow> status (errorHandler err) = 500"
  by (auto simp: findOneAndUpdate_def errorHandler_status_Error split: if_splits)

lemma updateEvent_steps:
  assumes "updateEvent p now db i body req_file = (res, db')" "status res = 200"
  shows "\<exists>oid ud1 d result coll.
           toObjectId p i = Inr (Some oid)
           \<and> normalize_update p
                (case req_file of None \<Rightarrow> of_body body
                 | Some path \<Rightarrow> (of_body body)(''image'' \<mapsto> Text path)) = Inr ud1
           \<and> db = Some d
           \<and> findOneAndUpdate (d COLLECTION_NAME) oid (ud1(''updated_at'' \<mapsto> JDate (Some now)))
               = Inr (Some result, coll)
           \<and> data res = Event result
           \<and> db' = Some (d(COLLECTION_NAME := coll))"
proof -
  from toObjectId_Inr obtain r where r: "toObjectId p i = Inr r" by blast
  show ?thesis
  proof (cases r)
    case None
    with assms r show ?thesis
      by (auto simp: updateEvent_def errorHandler_status_APIError)
  next
    case (Some oid)
    let ?sent = "case req_file of None \<Rightarrow> of_body body
                | Some path \<Rightarrow> (of_body body)(''image'' \<mapsto> Text path)"
    have nonempty: "\<not> (body = [] \<and> req_file = None)"
    proof
      assume "body = [] \<and> req_file = None"
      with assms r Some show False
        by (auto simp: updateEvent_def Let_def errorHandler_status_APIError)
    qed
    show ?thesis
    proof (cases "normalize_update p ?sent")
      case (Inl err)
      with assms r Some nonempty show ?thesis
        by (auto simp: updateEvent_def Let_def normalize_update_error_status)
    next
      case (Inr ud1)
      note ud1 = this
      show ?thesis
      proof (cases db)
        case None
        with assms r Some nonempty ud1 show ?thesis
          by (auto simp: updateEvent_def Let_def getDB_def errorHandler_status_Error)
      next
        case (Some d)
        note d = this
        show ?thesis
        proof (cases "findOneAndUpdate (d COLLECTION_NAME) oid (ud1(''updated_at'' \<mapsto> JDate (Some now)))")
          case (Inl err)
          with assms r \<open>r = Some oid\<close> nonempty ud1 d show ?thesis
            by (auto simp: updateEvent_def Let_def getDB_def findOneAndUpdate_error_status)
        next
          case (Inr rc)
          obtain ro coll where rc: "rc = (ro, coll)" by (cases rc)
          show ?thesis
          proof (cases ro)
            case None
            with assms r \<open>r = Some oid\<close> nonempty ud1 d Inr rc show ?thesis
              by (auto simp: updateEvent_def Let_def getDB_def errorHandler_status_APIError)
          next
            case (Some result)
            with assms r \<open>r = Some oid\<close> nonempty ud1 d Inr rc show ?thesis
              by (auto simp: updateEvent_def Let_def getDB_def)
          qed
        qed
      qed
    qed
  qed
qed

lemma updateEvent_success:
  assumes "updateEvent p now db i body req_file = (res, db')" "status res = 200"
  shows "\<exists>oid old ud. toObjectId p i = Inr (Some oid)
           \<and> findOne (events_of db) oid = Some old
           \<and> findOne (events_of db') oid = Some (old ++ ud)
           \<and> data res = Event (old ++ ud)
           \<and> ud ''updated_at'' = Some (JDate (Some now))
           \<and> (\<forall>k. k \<noteq> ''updated_at'' \<and> map_of body k = None \<and> (k = ''image'' \<longrightarrow> req_file = None)
                  \<longrightarrow> ud k = None)"
proof -
  let ?sent = "case req_file of None \<Rightarrow> of_body body
              | Some path \<Rightarrow> (of_body body)(''image'' \<mapsto> Text path)"
  from updateEvent_steps [OF assms] obtain oid ud1 d result coll where
    oid: "toObjectId p i = Inr (Some oid)"
    and ud1: "normalize_update p ?sent = Inr ud1"
    and d: "db = Some d"
    and fu: "findOneAndUpdate (d COLLECTION_NAME) oid (ud1(''updated_at'' \<mapsto> JDate (Some now)))
               = Inr (Some result, coll)"
    and res: "data res = Event result"
    and db': "db' = Some (d(COLLECTION_NAME := coll))"
    by blast
  let ?ud = "ud1(''updated_at'' \<mapsto> JDate (Some now))"
  from findOneAndUpdate_result [OF fu] obtain old where
    old: "findOne (d COLLECTION_NAME) oid = Some old" "result = old ++ ?ud"
      "findOne coll oid = Some result"
    by blast
  have frame: "\<forall>k. k \<noteq> ''updated_at'' \<and> map_of body k = None \<and> (k = ''image'' \<longrightarrow> req_file = None)
                  \<longrightarrow> ?ud k = None"
  proof (intro allI impI)
    fix k assume k: "k \<noteq> ''updated_at'' \<and> map_of body k = None \<and> (k = ''image'' \<longrightarrow> req_file = None)"
    then have "?sent k = None"
      by (cases req_file) (auto simp: of_body_lookup)
    from normalize_update_absent [OF ud1 this] k show "?ud k = None" by simp
  qed
  show ?thesis
    using oid old d db' res frame
    by (intro exI [of _ oid] exI [of _ old] exI [of _ ?ud]) (simp add: events_of_def)
qed

lemma toObjectId_sample: "toObjectId node sample_id = Inr (Some sample_id)"
  by code_simp

lemma findOne_sample: "findOne (events_of sample_db) sample_id = Some sample_event"
  by (simp add: findOne_def events_of_def sample_db_def database_of_def COLLECTION_NAME_def
        has_id_def sample_event_def)

section \<open>Time stamps on update\<close>

text \<open>
  Claim C5, as amended. Every update answered with 200 changed a record that existed,
  and the stored record afterwards is the one returned. If the body of the request has
  no \<^verbatim>\<open>created_at\<close> property, the stored \<^verbatim>\<open>created_at\<close> is the one the
  record had before; and in every case \<^verbatim>\<open>updated_at\<close> is the time of the update.
\<close>

theorem update_keeps_created_at:
  assumes "updateEvent p now db i body req_file = (res, db')" "status res = 200"
  shows "\<exists>oid old new. toObjectId p i = Inr (Some oid)
           \<and> findOne (events_of db) oid = Some old
           \<and> findOne (events_of db') oid = Some new
           \<and> data res = Event new
           \<and> (map_of body ''created_at'' = None \<longrightarrow> new ''created_at'' = old ''created_at'')
           \<and> new ''updated_at'' = Some (JDate (Some now))"
proof -
  from updateEvent_success [OF assms] obtain oid old ud where
    s: "toObjectId p i = Inr (Some oid)" "findOne (events_of db) oid = Some old"
      "findOne (events_of db') oid = Some (old ++ ud)" "data res = Event (old ++ ud)"
      "ud ''updated_at'' = Some (JDate (Some now))"
    and frame: "\<forall>k. k \<noteq> ''updated_at'' \<and> map_of body k = None \<and> (k = ''image'' \<longrightarrow> req_file = None)
                  \<longrightarrow> ud k = None"
    by blast
  have "map_of body ''created_at'' = None \<longrightarrow> (old ++ ud) ''created_at'' = old ''created_at''"
    using frame by (auto simp: map_add_def)
  moreover have "(old ++ ud) ''updated_at'' = Some (JDate (Some now))"
    using s(5) by (simp add: map_add_def)
  ultimately show ?thesis using s
    by (intro exI [of _ oid] exI [of _ old] exI [of _ "old ++ ud"]) simp
qed

theorem update_keeps_created_at_witness:
  "status (fst (updateEvent node 1710000000000 sample_db sample_id
      [(''name'', JStr ''Renamed'')] None)) = 200
   \<and> field_of ''created_at'' (findOne (events_of (snd (updateEvent node 1710000000000 sample_db
        sample_id [(''name'', JStr ''Renamed'')] None))) sample_id)
       = Some (JDate (Some 1704744491234))
   \<and> field_of ''updated_at'' (findOne (events_of (snd (updateEvent node 1710000000000 sample_db
        sample_id [(''name'', JStr ''Renamed'')] None))) sample_id)
       = Some (JDate (Some 1710000000000))"
proof -
  let ?r = "updateEvent node 1710000000000 sample_db sample_id [(''name'', JStr ''Renamed'')] None"
  have ok: "status (fst ?r) = 200"
    by code_simp
  have eq: "?r = (fst ?r, snd ?r)" by simp
  from update_keeps_created_at [OF eq ok] obtain oid old new where
    n: "toObjectId node sample_id = Inr (Some oid)"
      "findOne (events_of sample_db) oid = Some old"
      "findOne (events_of (snd ?r)) oid = Some new"
      "map_of [(''name'', JStr ''Renamed'')] ''created_at'' = None
         \<longrightarrow> new ''created_at'' = old ''created_at''"
      "new ''updated_at'' = Some (JDate (Some 1710000000000))"
    by auto
  from n(1) have oid: "oid = sample_id" by (simp add: toObjectId_sample)
  with n(2) have old: "old = sample_event" by (simp add: findOne_sample)
  have "new ''created_at'' = Some (JDate (Some 1704744491234))"
    using n(4) old by (simp add: sample_event_def)
  with n(3,5) oid ok show ?thesis by (simp add: field_of_def)
qed

text \<open>
  The claim as stated does not hold: the handler writes every property of the body, so a
  body with a \<^verbatim>\<open>created_at\<close> property replaces the stored value.
\<close>

theorem update_overwrites_created_at:
  "status (fst (updateEvent node 1710000000000 sample_db sample_id
      [(''created_at'', JStr ''yesterday'')] None)) = 200
   \<and> field_of ''created_at'' (findOne (events_of sample_db) sample_id)
       = Some (JDate (Some 1704744491234))
   \<and> field_of ''created_at'' (findOne (events_of (snd (updateEvent node 1710000000000 sample_db
        sample_id [(''created_at'', JStr ''yesterday'')] None))) sample_id)
       = Some (Text ''yesterday'')"
  by code_simp

section \<open>Validation on update\<close>

text \<open>
  Claim C1 asks that an update with a non-numeric \<^verbatim>\<open>rigor_rank\<close> or an unparsable
  \<^verbatim>\<open>schedule\<close> be rejected before any write. The update handler never calls the
  validator: the request below is answered with 200, and the not-a-number and
  invalid-date sentinels are stored, although the validator in update mode rejects
  either normalised record.
\<close>

theorem update_stores_unvalidated_fields:
  "status (fst (updateEvent node 1710000000000 sample_db sample_id
      [(''rigor_rank'', JStr ''abc''), (''schedule'', JStr ''soon'')] None)) = 200
   \<and> field_of ''rigor_rank'' (findOne (events_of (snd (updateEvent node 1710000000000 sample_db
        sample_id [(''rigor_rank'', JStr ''abc''), (''schedule'', JStr ''soon'')] None))) sample_id)
       = Some (Number NaN)
   \<and> field_of ''schedule'' (findOne (events_of (snd (updateEvent node 1710000000000 sample_db
        sample_id [(''rigor_rank'', JStr ''abc''), (''schedule'', JStr ''soon'')] None))) sample_id)
       = Some (JDate None)
   \<and> (case normalize_update node (of_body [(''rigor_rank'', JStr ''abc'')]) of
         Inl err \<Rightarrow> False
       | Inr updateData \<Rightarrow>
           validateEventData node updateData True
             = Inl (APIError ''rigor_rank must be a valid integer'' 400))
   \<and> (case normalize_update node (of_body [(''schedule'', JStr ''soon'')]) of
         Inl err \<Rightarrow> False
       | Inr updateData \<Rightarrow>
           validateEventData node updateData True
             = Inl (APIError ''schedule must be a valid date/time'' 400))"
  by code_simp

theorem update_stores_unvalidated_fields_witness:
  "status (fst (updateEvent node 1710000000000 sample_db sample_id
      [(''rigor_rank'', JStr ''abc''), (''schedule'', JStr ''soon'')] None)) = 200"
  using update_stores_unvalidated_fields by simp

section \<open>Required fields on create\<close>

lemma missing_loop_filter: "missing_loop d fs acc = acc @ filter (is_missing d) fs"
  by (induction fs arbitrary: acc) auto

lemma absent_or_blank_missing: "absent_or_blank d f \<Longrightarrow> is_missing d f"
  by (auto simp: absent_or_blank_def is_missing_def split: option.splits jsval.splits json.splits)

lemma validateRequiredFields_eq:
  "validateRequiredFields d fs =
     (if filter (is_missing d) fs = [] then Inr ()
      else Inl (APIError (''Missing required fields: '' @ join '', '' (filter (is_missing d) fs)) 400))"
  by (simp add: validateRequiredFields_def missing_loop_filter Let_def)

text \<open>
  Claim C4, as amended. In create mode, whenever at least one of the eight required
  fields is absent or is text that is blank after trimming, the validator rejects the
  record with the one message that lists, in the order of the required list, every field
  the loop found missing; each absent or blank required field is among them.
\<close>

theorem create_reports_every_missing_field:
  assumes "list_ex (absent_or_blank d) requiredFields"
  shows "validateEventData p d False =
           Inl (APIError (''Missing required fields: ''
                  @ join '', '' (filter (is_missing d) requiredFields)) 400)
         \<and> (\<forall>f \<in> set requiredFields. absent_or_blank d f
               \<longrightarrow> f \<in> set (filter (is_missing d) requiredFields))"
proof -
  from assms obtain f where f: "f \<in> set requiredFields" "absent_or_blank d f"
    by (auto simp: list_ex_iff)
  then have "f \<in> set (filter (is_missing d) requiredFields)"
    by (simp add: absent_or_blank_missing)
  then have "filter (is_missing d) requiredFields \<noteq> []"
    by (metis empty_iff empty_set)
  then show ?thesis
    by (simp add: validateEventData_def validateRequiredFields_eq absent_or_blank_missing)
qed

theorem create_reports_every_missing_field_witness:
  "validateEventData node (sample_event(''name'' \<mapsto> Text ''  '', ''tagline'' := None)) False
     = Inl (APIError ''Missing required fields: name, tagline'' 400)"
proof -
  let ?d = "sample_event(''name'' \<mapsto> Text ''  '', ''tagline'' := None)"
  have h: "list_ex (absent_or_blank ?d) requiredFields"
    by code_simp
  have m: "filter (is_missing ?d) requiredFields = [''name'', ''tagline'']"
    by code_simp
  show ?thesis
    using create_reports_every_missing_field [OF h, of node] m by simp
qed

text \<open>
  The claim as stated says the validator rejects in no other case. It does: the create
  request of the README with the schedule \<^verbatim>\<open>soon\<close> has all eight fields, none of
  them blank, and its normalised record is rejected by the schedule check.
\<close>

theorem create_rejects_invalid_schedule:
  "(case normalize_create node ((''schedule'', JStr ''soon'') # sample_body) of
      Inl err \<Rightarrow> False
    | Inr eventData \<Rightarrow>
        \<not> list_ex (absent_or_blank eventData) requiredFields
        \<and> validateEventData node eventData False
            = Inl (APIError ''schedule must be a valid date/time'' 400))
   \<and> status (fst (createEvent node 1710000000000 1710000000000 ''65f0c1e2a4b3c2d1e0f9a8b7''
        sample_db ((''schedule'', JStr ''soon'') # sample_body) (Some ''uploads/image-1.jpg'')))
      = 400
   \<and> error (fst (createEvent node 1710000000000 1710000000000 ''65f0c1e2a4b3c2d1e0f9a8b7''
        sample_db ((''schedule'', JStr ''soon'') # sample_body) (Some ''uploads/image-1.jpg'')))
      = Some ''schedule must be a valid date/time''"
  by code_simp

section \<open>Facts about the create handler\<close>

lemma convert_int_other: "k \<noteq> f \<Longrightarrow> convert_int f ed k = ed k"
  by (simp add: convert_int_def)

lemma convert_schedule_other: "k \<noteq> ''schedule'' \<Longrightarrow> convert_schedule p ed k = ed k"
  by (simp add: convert_schedule_def split: option.splits)

lemma convert_attendees_other:
  "convert_attendees p ed = Inr ed' \<Longrightarrow> k \<noteq> ''attendees'' \<Longrightarrow> ed' k = ed k"
  by (auto simp: convert_attendees_def split: option.splits jsval.splits json.splits)

lemma default_attendees_other: "k \<noteq> ''attendees'' \<Longrightarrow> default_attendees ed k = ed k"
  by (simp add: default_attendees_def)

lemma normalize_create_cases:
  assumes "normalize_create p body = Inr ed"
  obtains a where
    "if truthy (of_body body ''attendees'') \<and> is_string (of_body body ''attendees'')
     then convert_attendees p (of_body body) = Inr a
     else a = default_attendees (of_body body)"
    "ed = convert_schedule p (convert_int ''rigor_rank'' (convert_int ''uid'' a))"
  using assms by (auto simp: normalize_create_def Let_def split: if_splits sum.splits)

lemma normalize_create_uid:
  assumes "normalize_create p body = Inr ed" "map_of body ''uid'' = Some (JStr s)" "s \<noteq> []"
  shows "ed ''uid'' = Some (Number (parseInt s))"
proof -
  from normalize_create_cases [OF assms(1)] obtain a where
    a: "if truthy (of_body body ''attendees'') \<and> is_string (of_body body ''attendees'')
        then convert_attendees p (of_body body) = Inr a
        else a = default_attendees (of_body body)"
    and ed: "ed = convert_schedule p (convert_int ''rigor_rank'' (convert_int ''uid'' a))"
    by blast
  have "a ''uid'' = of_body body ''uid''"
    using a by (auto simp: convert_attendees_other default_attendees_other split: if_splits)
  then have "a ''uid'' = Some (Text s)"
    using assms(2) by (simp add: of_body_lookup)
  then have "convert_int ''uid'' a ''uid'' = Some (Number (parseInt s))"
    using assms(3) by (simp add: convert_int_def)
  then show ?thesis
    by (simp add: ed convert_schedule_other convert_int_other)
qed

lemma is_missing_other: "f \<noteq> k \<Longrightarrow> is_missing (ed(k := v)) f = is_missing ed f"
  by (simp add: is_missing_def)

lemma validateEventData_ignores_uid:
  "validateEventData p (ed(''uid'' := v)) m = validateEventData p ed m"
proof -
  have "filter (is_missing (ed(''uid'' := v))) requiredFields
          = filter (is_missing ed) requiredFields"
    by (rule filter_cong) (auto simp: requiredFields_def is_missing_other)
  moreover have "check_rigor_rank (ed(''uid'' := v)) = check_rigor_rank ed"
    by (simp add: check_rigor_rank_def)
  moreover have "check_schedule p (ed(''uid'' := v)) = check_schedule p ed"
    by (simp add: check_schedule_def)
  moreover have "check_attendees (ed(''uid'' := v)) = check_attendees ed"
    by (simp add: check_attendees_def)
  ultimately show ?thesis
    by (simp add: validateEventData_def validateRequiredFields_eq split: sum.splits)
qed

lemma validateEventData_error:
  "validateEventData p d m = Inl err \<Longrightarrow> \<exists>msg. msg \<noteq> [] \<and> err = APIError msg 400"
  by (auto simp: validateEventData_def validateRequiredFields_eq check_rigor_rank_def
        check_schedule_def check_attendees_def Let_def
        split: if_splits sum.splits option.splits)

lemma normalize_create_error:
  "normalize_create p body = Inl err \<Longrightarrow>
     err = APIError ''Invalid attendees format. Must be a JSON array'' 400"
  by (auto simp: normalize_create_def convert_attendees_def Let_def
        split: if_splits sum.splits option.splits jsval.splits json.splits)

lemma insertOne_error_status:
  "insertOne fresh coll doc = Inl err \<Longrightarrow> status (errorHandler err) = 500"
  by (auto simp: insertOne_def Let_def errorHandler_status_Error split: if_splits prod.splits)

lemma insertOne_result:
  assumes "insertOne fresh coll doc = Inr (i, doc', coll')"
  shows "coll' = coll @ [doc'] \<and> (\<forall>k. k \<noteq> ''_id'' \<longrightarrow> doc' k = doc k)"
  using assms
  by (auto simp: insertOne_def Let_def split: if_splits prod.splits option.splits)

lemma createEvent_steps:
  assumes "createEvent p now1 now2 fresh db body req_file = (res, db')" "status res = 201"
  shows "\<exists>ed path d i doc coll.
           normalize_create p body = Inr ed \<and> req_file = Some path
           \<and> validateEventData p (ed(''image'' \<mapsto> Text path)) False = Inr ()
           \<and> db = Some d
           \<and> insertOne fresh (d COLLECTION_NAME)
                (stamp_create now1 now2 (ed(''image'' \<mapsto> Text path))) = Inr (i, doc, coll)
           \<and> data res = Created i doc
           \<and> db' = Some (d(COLLECTION_NAME := coll))"
proof (cases "normalize_create p body")
  case (Inl err)
  with assms show ?thesis
    by (auto simp: createEvent_def errorHandler_status_APIError dest!: normalize_create_error)
next
  case (Inr ed)
  note ed = this
  show ?thesis
  proof (cases req_file)
    case None
    with assms ed show ?thesis
      by (auto simp: createEvent_def errorHandler_status_APIError)
  next
    case (Some path)
    note path = this
    show ?thesis
    proof (cases "validateEventData p (ed(''image'' \<mapsto> Text path)) False")
      case (Inl err)
      with assms ed path show ?thesis
        by (auto simp: createEvent_def Let_def errorHandler_status_APIError
              dest!: validateEventData_error)
    next
      case (Inr u)
      note valid = this
      show ?thesis
      proof (cases db)
        case None
        with assms ed path valid show ?thesis
          by (auto simp: createEvent_def Let_def getDB_def errorHandler_status_Error)
      next
        case (Some d)
        note d = this
        show ?thesis
        proof (cases "insertOne fresh (d COLLECTION_NAME)
                        (stamp_create now1 now2 (ed(''image'' \<mapsto> Text path)))")
          case (Inl err)
          with assms ed path valid d show ?thesis
            by (auto simp: createEvent_def Let_def getDB_def insertOne_error_status)
        next
          case (Inr t)
          obtain i doc coll where t: "t = (i, doc, coll)" by (cases t)
          with assms ed path valid d Inr show ?thesis
            by (auto simp: createEvent_def Let_def getDB_def)
        qed
      qed
    qed
  qed
qed

lemma stamp_create_uid:
  "\<not> truthy (ed ''uid'') \<Longrightarrow> stamp_create now1 now2 ed ''uid'' = Some (Number (Num 18))"
  by (simp add: stamp_create_def Let_def)

lemma map_of_remove_field:
  "map_of (remove_field k body) k' = (if k' = k then None else map_of body k')"
  by (induction body) (auto simp: remove_field_def)

lemma of_body_remove_field: "of_body (remove_field k body) = (of_body body)(k := None)"
  by (rule ext) (simp add: of_body_lookup map_of_remove_field)

lemma convert_int_upd_other:
  "f \<noteq> k \<Longrightarrow> convert_int f (ed(k := v)) = (convert_int f ed)(k := v)"
  by (rule ext) (simp add: convert_int_def)

lemma convert_schedule_upd_other:
  "k \<noteq> ''schedule'' \<Longrightarrow> convert_schedule p (ed(k := v)) = (convert_schedule p ed)(k := v)"
  by (rule ext) (simp add: convert_schedule_def split: option.splits)

lemma convert_attendees_upd_other:
  assumes "k \<noteq> ''attendees''"
  shows "convert_attendees p (ed(k := v))
           = (case convert_attendees p ed of Inl e \<Rightarrow> Inl e | Inr a \<Rightarrow> Inr (a(k := v)))"
proof -
  have tw: "(ed(k := v))(''attendees'' \<mapsto> w) = (ed(''attendees'' \<mapsto> w))(k := v)" for w
    using assms by (rule_tac ext) simp
  show ?thesis
    using assms
    by (simp add: convert_attendees_def tw split: option.splits jsval.splits json.splits)
qed

lemma default_attendees_upd_other:
  assumes "k \<noteq> ''attendees''"
  shows "default_attendees (ed(k := v)) = (default_attendees ed)(k := v)"
  using assms by (rule_tac ext) (simp add: default_attendees_def)

lemma convert_int_as_upd: "convert_int f ed = ed(f := convert_int f ed f)"
  by (rule ext) (simp add: convert_int_def)

lemma normalize_create_remove_uid:
  "normalize_create p (remove_field ''uid'' body)
     = (case normalize_create p body of
          Inl e \<Rightarrow> Inl e
        | Inr ed \<Rightarrow> Inr (ed(''uid'' := None)))"
proof -
  let ?b = "of_body body"
  let ?step = "\<lambda>b. if truthy (b ''attendees'') \<and> is_string (b ''attendees'')
                    then convert_attendees p b else Inr (default_attendees b)"
  have step: "?step (?b(''uid'' := None))
                = (case ?step ?b of Inl e \<Rightarrow> Inl e | Inr a \<Rightarrow> Inr (a(''uid'' := None)))"
    by (simp add: convert_attendees_upd_other default_attendees_upd_other)
  have rest: "convert_schedule p (convert_int ''rigor_rank'' (convert_int ''uid''
                (a(''uid'' := None))))
              = (convert_schedule p (convert_int ''rigor_rank'' (convert_int ''uid'' a)))
                  (''uid'' := None)" for a :: jsobj
  proof -
    have l: "convert_int ''uid'' (a(''uid'' := None)) = a(''uid'' := None)"
      by (simp add: convert_int_def)
    obtain w where w: "convert_int ''uid'' a = a(''uid'' := w)"
      using convert_int_as_upd [of "''uid''" a] by blast
    have "convert_schedule p (convert_int ''rigor_rank'' (a(''uid'' := u)))
            = (convert_schedule p (convert_int ''rigor_rank'' a))(''uid'' := u)" for u
      by (simp add: convert_int_upd_other convert_schedule_upd_other)
    then show ?thesis
      by (simp only: l w fun_upd_upd)
  qed
  show ?thesis
    unfolding normalize_create_def Let_def of_body_remove_field step
    by (cases "?step ?b") (simp_all add: rest)
qed

lemma stamp_create_falsy_uid:
  assumes "\<not> truthy (x ''uid'')"
  shows "stamp_create now1 now2 (x(''uid'' := None)) = stamp_create now1 now2 x"
  using assms by (rule_tac ext) (simp add: stamp_create_def Let_def)

lemma createEvent_nonnumeric_uid_as_absent:
  assumes "map_of body ''uid'' = Some (JStr s)" "s \<noteq> []" "parseInt s = NaN"
  shows "createEvent p now1 now2 fresh db (remove_field ''uid'' body) req_file
           = createEvent p now1 now2 fresh db body req_file"
proof (cases "normalize_create p body")
  case (Inl e)
  then show ?thesis
    by (simp add: createEvent_def normalize_create_remove_uid)
next
  case (Inr ed)
  from normalize_create_uid [OF Inr assms(1,2)] assms(3)
  have uid: "ed ''uid'' = Some (Number NaN)" by simp
  show ?thesis
  proof (cases req_file)
    case None
    with Inr show ?thesis
      by (simp add: createEvent_def normalize_create_remove_uid)
  next
    case (Some path)
    let ?x = "ed(''image'' \<mapsto> Text path)"
    have tw: "(ed(''uid'' := None))(''image'' \<mapsto> Text path) = ?x(''uid'' := None)"
      by (rule ext) simp
    have v: "validateEventData p (?x(''uid'' := None)) False = validateEventData p ?x False"
      by (rule validateEventData_ignores_uid)
    have "\<not> truthy (?x ''uid'')" using uid by simp
    then have st: "stamp_create now1 now2 (?x(''uid'' := None)) = stamp_create now1 now2 ?x"
      by (rule stamp_create_falsy_uid)
    from Inr Some show ?thesis
      apply (simp add: createEvent_def normalize_create_remove_uid tw v)
      apply (unfold st Let_def)
      apply (rule refl)
      done
  qed
qed

section \<open>A non-numeric \<^verbatim>\<open>uid\<close> on create\<close>

text \<open>
  Claim C3, as amended. For a create request whose \<^verbatim>\<open>uid\<close> is non-empty text in
  which \<^verbatim>\<open>parseInt\<close> finds no number: normalisation, when it succeeds, leaves the
  not-a-number sentinel in \<^verbatim>\<open>uid\<close>; the validator never looks at \<^verbatim>\<open>uid\<close>,
  so its verdict is the one it would give with any other \<^verbatim>\<open>uid\<close> or none; the
  handler answers, and stores, exactly as it does for the same request without the
  \<^verbatim>\<open>uid\<close> field; and whenever the answer is 201, the document appended to the
  collection carries the fallback \<^verbatim>\<open>uid\<close> 18.
\<close>

theorem create_nonnumeric_uid:
  assumes "map_of body ''uid'' = Some (JStr s)" "s \<noteq> []" "parseInt s = NaN"
  shows "(\<forall>ed. normalize_create p body = Inr ed \<longrightarrow> ed ''uid'' = Some (Number NaN))
       \<and> (\<forall>ed m v. validateEventData p (ed(''uid'' := v)) m = validateEventData p ed m)
       \<and> createEvent p now1 now2 fresh db body req_file
           = createEvent p now1 now2 fresh db (remove_field ''uid'' body) req_file
       \<and> (\<forall>res db'. createEvent p now1 now2 fresh db body req_file = (res, db') \<and> status res = 201
             \<longrightarrow> (\<exists>i doc. data res = Created i doc \<and> doc ''uid'' = Some (Number (Num 18))
                    \<and> events_of db' = events_of db @ [doc]))"
proof (intro conjI allI impI)
  fix ed assume "normalize_create p body = Inr ed"
  from normalize_create_uid [OF this assms(1,2)] assms(3)
  show "ed ''uid'' = Some (Number NaN)" by simp
next
  fix ed m v
  show "validateEventData p (ed(''uid'' := v)) m = validateEventData p ed m"
    by (rule validateEventData_ignores_uid)
next
  show "createEvent p now1 now2 fresh db body req_file
          = createEvent p now1 now2 fresh db (remove_field ''uid'' body) req_file"
    by (rule createEvent_nonnumeric_uid_as_absent [OF assms, symmetric])
next
  fix res db'
  assume a: "createEvent p now1 now2 fresh db body req_file = (res, db') \<and> status res = 201"
  from createEvent_steps [of p now1 now2 fresh db body req_file res db'] a
  obtain ed path d i doc coll where
    st: "normalize_create p body = Inr ed" "req_file = Some path" "db = Some d"
      "insertOne fresh (d COLLECTION_NAME)
         (stamp_create now1 now2 (ed(''image'' \<mapsto> Text path))) = Inr (i, doc, coll)"
      "data res = Created i doc" "db' = Some (d(COLLECTION_NAME := coll))"
    by auto
  from normalize_create_uid [OF st(1) assms(1,2)] assms(3)
  have "ed ''uid'' = Some (Number NaN)" by simp
  then have "\<not> truthy ((ed(''image'' \<mapsto> Text path)) ''uid'')" by simp
  then have "stamp_create now1 now2 (ed(''image'' \<mapsto> Text path)) ''uid''
               = Some (Number (Num 18))"
    by (rule stamp_create_uid)
  with insertOne_result [OF st(4)]
  have "doc ''uid'' = Some (Number (Num 18))" "coll = d COLLECTION_NAME @ [doc]" by auto
  with st show "\<exists>i doc. data res = Created i doc \<and> doc ''uid'' = Some (Number (Num 18))
                    \<and> events_of db' = events_of db @ [doc]"
    by (simp add: events_of_def)
qed

theorem create_nonnumeric_uid_witness:
  "parseInt ''abc'' = NaN
   \<and> status (fst (createEvent node 1710000000000 1710000000001 ''65f0c1e2a4b3c2d1e0f9a8b7''
        sample_db ((''uid'', JStr ''abc'') # sample_body) (Some ''uploads/image-1.jpg''))) = 201
   \<and> createEvent node 1710000000000 1710000000001 ''65f0c1e2a4b3c2d1e0f9a8b7''
        sample_db ((''uid'', JStr ''abc'') # sample_body) (Some ''uploads/image-1.jpg'')
      = createEvent node 1710000000000 1710000000001 ''65f0c1e2a4b3c2d1e0f9a8b7''
          sample_db (remove_field ''uid'' ((''uid'', JStr ''abc'') # sample_body))
          (Some ''uploads/image-1.jpg'')
   \<and> (\<exists>i doc. data (fst (createEvent node 1710000000000 1710000000001
          ''65f0c1e2a4b3c2d1e0f9a8b7'' sample_db ((''uid'', JStr ''abc'') # sample_body)
          (Some ''uploads/image-1.jpg''))) = Created i doc
        \<and> doc ''uid'' = Some (Number (Num 18)))"
proof -
  let ?body = "(''uid'', JStr ''abc'') # sample_body"
  let ?r = "createEvent node 1710000000000 1710000000001 ''65f0c1e2a4b3c2d1e0f9a8b7''
              sample_db ?body (Some ''uploads/image-1.jpg'')"
  have h1: "map_of ?body ''uid'' = Some (JStr ''abc'')" by simp
  have h2: "''abc'' \<noteq> []" by simp
  have h3: "parseInt ''abc'' = NaN" by code_simp
  have ok: "status (fst ?r) = 201" by code_simp
  have eq: "?r = (fst ?r, snd ?r)" by simp
  note t = create_nonnumeric_uid [OF h1 h2 h3, of node 1710000000000 1710000000001
      "''65f0c1e2a4b3c2d1e0f9a8b7''" sample_db "Some ''uploads/image-1.jpg''"]
  from t have same: "?r = createEvent node 1710000000000 1710000000001
      ''65f0c1e2a4b3c2d1e0f9a8b7'' sample_db (remove_field ''uid'' ?body)
      (Some ''uploads/image-1.jpg'')"
    by simp
  from t eq ok
  have "\<exists>i doc. data (fst ?r) = Created i doc \<and> doc ''uid'' = Some (Number (Num 18))
          \<and> events_of (snd ?r) = events_of sample_db @ [doc]"
    by blast
  then have "\<exists>i doc. data (fst ?r) = Created i doc \<and> doc ''uid'' = Some (Number (Num 18))"
    by blast
  with h3 ok same show ?thesis by simp
qed

text \<open>
  The claim as stated does not hold: the README's create request with the
  \<^verbatim>\<open>uid\<close> text \<^verbatim>\<open>abc\<close> passes the validator with the sentinel in place, is
  answered with 201, and is stored with \<^verbatim>\<open>uid\<close> 18.
\<close>

theorem create_stores_fallback_uid:
  "(case normalize_create node ((''uid'', JStr ''abc'') # sample_body) of
      Inl err \<Rightarrow> False
    | Inr eventData \<Rightarrow>
        eventData ''uid'' = Some (Number NaN)
        \<and> validateEventData node (eventData(''image'' \<mapsto> Text ''uploads/image-1.jpg'')) False
            = Inr ())
   \<and> status (fst (createEvent node 1710000000000 1710000000001 ''65f0c1e2a4b3c2d1e0f9a8b7''
        sample_db ((''uid'', JStr ''abc'') # sample_body) (Some ''uploads/image-1.jpg''))) = 201
   \<and> field_of ''uid'' (findOne (events_of (snd (createEvent node 1710000000000 1710000000001
        ''65f0c1e2a4b3c2d1e0f9a8b7'' sample_db ((''uid'', JStr ''abc'') # sample_body)
        (Some ''uploads/image-1.jpg'')))) ''65f0c1e2a4b3c2d1e0f9a8b7'')
      = Some (Number (Num 18))"
  by code_simp

section \<open>The attendees field\<close>

lemma normalize_create_attendees_text:
  assumes "map_of body ''attendees'' = Some (JStr s)" "s \<noteq> []"
  shows "normalize_create p body =
           (case JSON_parse p s of
              None \<Rightarrow> Inl (APIError ''Invalid attendees format. Must be a JSON array'' 400)
            | Some v \<Rightarrow>
                Inr (convert_schedule p (convert_int ''rigor_rank'' (convert_int ''uid''
                       ((of_body body)(''attendees'' \<mapsto> JSON v))))))"
  using assms
  by (simp add: normalize_create_def Let_def of_body_lookup convert_attendees_def
        split: option.splits)

lemma normalize_create_attendees_falsy:
  assumes "\<not> truthy (of_body body ''attendees'')"
  shows "normalize_create p body =
           Inr (convert_schedule p (convert_int ''rigor_rank'' (convert_int ''uid''
                  ((of_body body)(''attendees'' \<mapsto> JSON (JArr []))))))"
  using assms by (simp add: normalize_create_def Let_def default_attendees_def)

lemma converted_attendees:
  "convert_schedule p (convert_int ''rigor_rank'' (convert_int ''uid'' a)) ''attendees''
     = a ''attendees''"
  by (simp add: convert_schedule_other convert_int_other)

lemma check_attendees_image:
  "check_attendees (ed(''image'' \<mapsto> v)) = check_attendees ed"
  by (simp add: check_attendees_def)

lemma validateEventData_attendees:
  assumes "check_attendees d = Inl e"
  shows "\<exists>msg. msg \<noteq> [] \<and> validateEventData p d m = Inl (APIError msg 400)"
proof (cases "validateEventData p d m")
  case (Inl err)
  from validateEventData_error [OF this] Inl show ?thesis by auto
next
  case (Inr u)
  with assms show ?thesis
    by (auto simp: validateEventData_def split: sum.splits if_splits)
qed

lemma createEvent_rejected:
  assumes "normalize_create p body = Inr ed" "check_attendees ed = Inl e"
  shows "\<exists>msg. createEvent p now1 now2 fresh db body req_file = (failure 400 msg, db)"
proof (cases req_file)
  case None
  with assms(1) show ?thesis
    by (auto simp: createEvent_def errorHandler_APIError)
next
  case (Some path)
  from assms(2) have "check_attendees (ed(''image'' \<mapsto> Text path)) = Inl e"
    by (simp add: check_attendees_image)
  from validateEventData_attendees [OF this, of p False] obtain msg where
    "msg \<noteq> []" "validateEventData p (ed(''image'' \<mapsto> Text path)) False = Inl (APIError msg 400)"
    by blast
  with assms(1) Some show ?thesis
    by (auto simp: createEvent_def Let_def errorHandler_APIError)
qed

text \<open>
  Claim C6, as amended. On create, a non-empty attendees text is decoded as JSON and the
  decoded value takes its place; a text that does not decode is rejected with the
  message about the attendees format and nothing is stored; a text that decodes to a
  truthy value that is not an array fails the validator's attendees check, and the
  request is rejected with a 400 and nothing is stored; an absent attendees field, or an
  empty text, becomes the empty array. On update, an absent attendees field leaves the
  stored one as it was.
\<close>

theorem attendees_normalisation:
  "(map_of body ''attendees'' = Some (JStr s) \<and> s \<noteq> [] \<and> JSON_parse p s = Some v
      \<longrightarrow> (\<exists>ed. normalize_create p body = Inr ed \<and> ed ''attendees'' = Some (JSON v)))
   \<and> (map_of body ''attendees'' = Some (JStr s) \<and> s \<noteq> [] \<and> JSON_parse p s = None
      \<longrightarrow> createEvent p now1 now2 fresh db body req_file
            = (failure 400 ''Invalid attendees format. Must be a JSON array'', db))
   \<and> (map_of body ''attendees'' = Some (JStr s) \<and> s \<noteq> [] \<and> JSON_parse p s = Some v
        \<and> truthy_json v \<and> \<not> isArray (Some (JSON v))
      \<longrightarrow> (\<exists>ed. normalize_create p body = Inr ed
              \<and> check_attendees ed = Inl (APIError ''attendees must be an array of user IDs'' 400))
          \<and> (\<exists>msg. createEvent p now1 now2 fresh db body req_file = (failure 400 msg, db)))
   \<and> (map_of body ''attendees'' = None \<or> map_of body ''attendees'' = Some (JStr [])
      \<longrightarrow> (\<exists>ed. normalize_create p body = Inr ed \<and> ed ''attendees'' = Some (JSON (JArr []))))
   \<and> (map_of body ''attendees'' = None \<and> updateEvent p now db i body req_file = (res, db')
        \<and> status res = 200
      \<longrightarrow> (\<exists>oid old new. toObjectId p i = Inr (Some oid)
              \<and> findOne (events_of db) oid = Some old
              \<and> findOne (events_of db') oid = Some new
              \<and> new ''attendees'' = old ''attendees''))"
proof (intro conjI impI)
  assume "map_of body ''attendees'' = Some (JStr s) \<and> s \<noteq> [] \<and> JSON_parse p s = Some v"
  then show "\<exists>ed. normalize_create p body = Inr ed \<and> ed ''attendees'' = Some (JSON v)"
    by (simp add: normalize_create_attendees_text converted_attendees)
next
  assume "map_of body ''attendees'' = Some (JStr s) \<and> s \<noteq> [] \<and> JSON_parse p s = None"
  then show "createEvent p now1 now2 fresh db body req_file
               = (failure 400 ''Invalid attendees format. Must be a JSON array'', db)"
    by (simp add: createEvent_def normalize_create_attendees_text errorHandler_APIError)
next
  assume a: "map_of body ''attendees'' = Some (JStr s) \<and> s \<noteq> [] \<and> JSON_parse p s = Some v
               \<and> truthy_json v \<and> \<not> isArray (Some (JSON v))"
  let ?ed = "convert_schedule p (convert_int ''rigor_rank'' (convert_int ''uid''
               ((of_body body)(''attendees'' \<mapsto> JSON v))))"
  from a have n: "normalize_create p body = Inr ?ed"
    by (simp add: normalize_create_attendees_text)
  from a have c: "check_attendees ?ed = Inl (APIError ''attendees must be an array of user IDs'' 400)"
    by (simp add: check_attendees_def converted_attendees)
  from n c show "\<exists>ed. normalize_create p body = Inr ed
              \<and> check_attendees ed = Inl (APIError ''attendees must be an array of user IDs'' 400)"
    by blast
  from createEvent_rejected [OF n c]
  show "\<exists>msg. createEvent p now1 now2 fresh db body req_file = (failure 400 msg, db)" .
next
  assume "map_of body ''attendees'' = None \<or> map_of body ''attendees'' = Some (JStr [])"
  then have "\<not> truthy (of_body body ''attendees'')"
    by (auto simp: of_body_lookup)
  then show "\<exists>ed. normalize_create p body = Inr ed \<and> ed ''attendees'' = Some (JSON (JArr []))"
    by (simp add: normalize_create_attendees_falsy converted_attendees)
next
  assume a: "map_of body ''attendees'' = None \<and> updateEvent p now db i body req_file = (res, db')
        \<and> status res = 200"
  from updateEvent_success [of p now db i body req_file res db'] a
  obtain oid old ud where
    s: "toObjectId p i = Inr (Some oid)" "findOne (events_of db) oid = Some old"
      "findOne (events_of db') oid = Some (old ++ ud)"
    and frame: "\<forall>k. k \<noteq> ''updated_at'' \<and> map_of body k = None \<and> (k = ''image'' \<longrightarrow> req_file = None)
                  \<longrightarrow> ud k = None"
    by auto
  from frame a have "ud ''attendees'' = None" by simp
  then have "(old ++ ud) ''attendees'' = old ''attendees''"
    by (simp add: map_add_def)
  with s show "\<exists>oid old new. toObjectId p i = Inr (Some oid)
              \<and> findOne (events_of db) oid = Some old
              \<and> findOne (events_of db') oid = Some new
              \<and> new ''attendees'' = old ''attendees''"
    by blast
qed

theorem attendees_normalisation_witness:
  \<open>(\<exists>ed. normalize_create node ((''attendees'', JStr ''["a","b"]'') # sample_body) = Inr ed
        \<and> ed ''attendees'' = Some (JSON (JArr [JStr ''a'', JStr ''b''])))
   \<and> createEvent node 1710000000000 1710000000001 ''65f0c1e2a4b3c2d1e0f9a8b7'' sample_db
        ((''attendees'', JStr ''not json'') # sample_body) (Some ''uploads/image-1.jpg'')
      = (failure 400 ''Invalid attendees format. Must be a JSON array'', sample_db)
   \<and> (\<exists>msg. createEvent node 1710000000000 1710000000001 ''65f0c1e2a4b3c2d1e0f9a8b7'' sample_db
        ((''attendees'', JStr ''{"a":1}'') # sample_body) (Some ''uploads/image-1.jpg'')
      = (failure 400 msg, sample_db))
   \<and> (\<exists>ed. normalize_create node sample_body = Inr ed
        \<and> ed ''attendees'' = Some (JSON (JArr [])))
   \<and> field_of ''attendees'' (findOne (events_of (snd (updateEvent node 1710000000000 sample_db
        sample_id [(''name'', JStr ''Renamed'')] None))) sample_id)
      = Some (JSON (JArr [JStr ''user1'', JStr ''user2'']))\<close>
proof -
  have d1: \<open>JSON_parse node ''["a","b"]'' = Some (JArr [JStr ''a'', JStr ''b''])\<close>
    by code_simp
  have d2: "JSON_parse node ''not json'' = None"
    by code_simp
  have d3: \<open>JSON_parse node ''{"a":1}'' = Some (JObj [(''a'', JNum (Num 1))])\<close>
    by code_simp
  have a: \<open>\<exists>ed. normalize_create node ((''attendees'', JStr ''["a","b"]'') # sample_body) = Inr ed
        \<and> ed ''attendees'' = Some (JSON (JArr [JStr ''a'', JStr ''b'']))\<close>
    using attendees_normalisation [where body = \<open>(''attendees'', JStr ''["a","b"]'') # sample_body\<close>
        and s = \<open>''["a","b"]''\<close> and p = node and v = \<open>JArr [JStr ''a'', JStr ''b'']\<close>] d1
    by simp
  have b: "createEvent node 1710000000000 1710000000001 ''65f0c1e2a4b3c2d1e0f9a8b7'' sample_db
        ((''attendees'', JStr ''not json'') # sample_body) (Some ''uploads/image-1.jpg'')
      = (failure 400 ''Invalid attendees format. Must be a JSON array'', sample_db)"
    using attendees_normalisation [where body = "(''attendees'', JStr ''not json'') # sample_body"
        and s = "''not json''" and p = node and ?now1.0 = 1710000000000
        and ?now2.0 = 1710000000001 and fresh = "''65f0c1e2a4b3c2d1e0f9a8b7''"
        and db = sample_db and req_file = "Some ''uploads/image-1.jpg''"] d2
    by simp
  have c: \<open>\<exists>msg. createEvent node 1710000000000 1710000000001 ''65f0c1e2a4b3c2d1e0f9a8b7'' sample_db
        ((''attendees'', JStr ''{"a":1}'') # sample_body) (Some ''uploads/image-1.jpg'')
      = (failure 400 msg, sample_db)\<close>
    using attendees_normalisation [where body = \<open>(''attendees'', JStr ''{"a":1}'') # sample_body\<close>
        and s = \<open>''{"a":1}''\<close> and p = node and v = \<open>JObj [(''a'', JNum (Num 1))]\<close>
        and ?now1.0 = 1710000000000 and ?now2.0 = 1710000000001
        and fresh = "''65f0c1e2a4b3c2d1e0f9a8b7''" and db = sample_db
        and req_file = "Some ''uploads/image-1.jpg''"] d3
    by simp
  have d: "\<exists>ed. normalize_create node sample_body = Inr ed
        \<and> ed ''attendees'' = Some (JSON (JArr []))"
    using attendees_normalisation [where body = sample_body and p = node]
    by (simp add: sample_body_def)
  let ?r = "updateEvent node 1710000000000 sample_db sample_id [(''name'', JStr ''Renamed'')] None"
  have ok: "status (fst ?r) = 200" by code_simp
  have eq: "?r = (fst ?r, snd ?r)" by simp
  from attendees_normalisation [where body = "[(''name'', JStr ''Renamed'')]" and p = node
      and req_file = None and now = 1710000000000 and db = sample_db and i = sample_id
      and res = "fst ?r" and db' = "snd ?r"] eq ok
  obtain oid old new where
    n: "toObjectId node sample_id = Inr (Some oid)"
      "findOne (events_of sample_db) oid = Some old"
      "findOne (events_of (snd ?r)) oid = Some new"
      "new ''attendees'' = old ''attendees''"
    by auto
  from n(1) have oid: "oid = sample_id" by (simp add: toObjectId_sample)
  with n(2) have old: "old = sample_event" by (simp add: findOne_sample)
  have e: "field_of ''attendees'' (findOne (events_of (snd ?r)) sample_id)
      = Some (JSON (JArr [JStr ''user1'', JStr ''user2'']))"
    using n(3,4) oid old by (simp add: field_of_def sample_event_def)
  from a b c d e show ?thesis by blast
qed

text \<open>
  The claim as stated has every text that does not decode to an array rejected. The empty
  text does not decode at all, yet the README's create request with an empty attendees
  text is answered with 201 and stored with the empty array.
\<close>

theorem create_defaults_empty_attendees:
  "JSON_parse node [] = None
   \<and> status (fst (createEvent node 1710000000000 1710000000001 ''65f0c1e2a4b3c2d1e0f9a8b7''
        sample_db ((''attendees'', JStr []) # sample_body) (Some ''uploads/image-1.jpg''))) = 201
   \<and> field_of ''attendees'' (findOne (events_of (snd (createEvent node 1710000000000
        1710000000001 ''65f0c1e2a4b3c2d1e0f9a8b7'' sample_db
        ((''attendees'', JStr []) # sample_body) (Some ''uploads/image-1.jpg''))))
        ''65f0c1e2a4b3c2d1e0f9a8b7'')
      = Some (JSON (JArr []))"
  by code_simp

section \<open>Defaults of the pagination resolver\<close>

lemma strip_prefix_no_digit:
  "(case S of [] \<Rightarrow> True | c # r \<Rightarrow> \<not> is_radix_digit 10 c) \<Longrightarrow> strip_prefix S = (10, S)"
  by (cases S) (auto simp: strip_prefix_def is_radix_digit_def digit_value_def)

lemma parseInt_no_digit:
  assumes "case snd (strip_sign (dropWhile is_space s)) of
             [] \<Rightarrow> True
           | c # r \<Rightarrow> \<not> is_radix_digit 10 c"
  shows "parseInt s = NaN"
proof -
  obtain sg S where sg: "strip_sign (dropWhile is_space s) = (sg, S)"
    by (cases "strip_sign (dropWhile is_space s)")
  with assms have S: "case S of [] \<Rightarrow> True | c # r \<Rightarrow> \<not> is_radix_digit 10 c" by simp
  then have "takeWhile (is_radix_digit 10) S = []"
    by (cases S) auto
  with sg strip_prefix_no_digit [OF S] show ?thesis
    by (simp add: parseInt_def)
qed

text \<open>
  Claim C9, as amended. When \<^verbatim>\<open>parseInt\<close> finds no number in the limit text, the
  resolved limit is 10 and the resolver rejects only on account of the page; when it
  finds none in the page text, the resolved page is 1 and the resolver rejects only on
  account of the limit; when it finds none in either, the result is limit 10, page 1,
  skip 0. It finds no number in an absent text, nor in a text that, after leading white
  space and an optional sign, is empty or starts with something other than a decimal
  digit.
\<close>

theorem unparsable_pagination_defaults:
  "(parseInt_val (query_text l) = NaN
      \<longrightarrow> resolve_limit l = 10
          \<and> ((\<exists>e. validatePagination l pg = Inl e) \<longleftrightarrow> resolve_page pg < 1))
   \<and> (parseInt_val (query_text pg) = NaN
      \<longrightarrow> resolve_page pg = 1
          \<and> ((\<exists>e. validatePagination l pg = Inl e)
               \<longleftrightarrow> (resolve_limit l < 1 \<or> resolve_limit l > 100)))
   \<and> (parseInt_val (query_text l) = NaN \<and> parseInt_val (query_text pg) = NaN
      \<longrightarrow> validatePagination l pg = Inr \<lparr>limit = 10, page = 1, skip = 0\<rparr>)
   \<and> parseInt_val (query_text None) = NaN
   \<and> ((case snd (strip_sign (dropWhile is_space t)) of
          [] \<Rightarrow> True
        | c # r \<Rightarrow> \<not> is_radix_digit 10 c)
      \<longrightarrow> parseInt_val (query_text (Some t)) = NaN)"
  by (auto simp: validatePagination_def Let_def resolve_limit_def resolve_page_def num_or_def
        query_text_def parseInt_undefined parseInt_no_digit)

theorem unparsable_pagination_defaults_witness:
  "parseInt_val (query_text (Some ''ten'')) = NaN
   \<and> validatePagination (Some ''ten'') None = Inr \<lparr>limit = 10, page = 1, skip = 0\<rparr>
   \<and> resolve_limit (Some ''ten'') = 10
   \<and> resolve_page (Some ''-'') = 1"
proof -
  have h: "case snd (strip_sign (dropWhile is_space ''ten'')) of
             [] \<Rightarrow> True
           | c # r \<Rightarrow> \<not> is_radix_digit 10 c"
    by code_simp
  have h': "case snd (strip_sign (dropWhile is_space ''-'')) of
             [] \<Rightarrow> True
           | c # r \<Rightarrow> \<not> is_radix_digit 10 c"
    by code_simp
  have a: "parseInt_val (query_text (Some ''ten'')) = NaN"
    using unparsable_pagination_defaults [where t = "''ten''"] h by simp
  have b: "parseInt_val (query_text (Some ''-'')) = NaN"
    using unparsable_pagination_defaults [where t = "''-''"] h' by simp
  have c: "parseInt_val (query_text None) = NaN"
    using unparsable_pagination_defaults by simp
  from unparsable_pagination_defaults [where l = "Some ''ten''" and pg = None] a c
  have "validatePagination (Some ''ten'') None = Inr \<lparr>limit = 10, page = 1, skip = 0\<rparr>"
    "resolve_limit (Some ''ten'') = 10"
    by simp_all
  moreover from unparsable_pagination_defaults [where pg = "Some ''-''"] b
  have "resolve_page (Some ''-'') = 1" by simp
  ultimately show ?thesis using a by simp
qed

text \<open>
  The claim as stated covers every text that is not integer text. But
  \<^verbatim>\<open>parseInt\<close> reads the digits a text starts with and ignores the rest: the
  limit text \<^verbatim>\<open>12abc\<close> resolves to 12 and the page text \<^verbatim>\<open>2nd\<close> to 2, not
  to the defaults, and the limit text \<^verbatim>\<open>101abc\<close> is rejected.
\<close>

theorem leading_digits_are_read:
  "\<not> integer_text ''12abc''
   \<and> validatePagination (Some ''12abc'') None = Inr \<lparr>limit = 12, page = 1, skip = 0\<rparr>
   \<and> \<not> integer_text ''2nd''
   \<and> validatePagination None (Some ''2nd'') = Inr \<lparr>limit = 10, page = 2, skip = 10\<rparr>
   \<and> \<not> integer_text ''101abc''
   \<and> validatePagination (Some ''101abc'') None
       = Inl (APIError ''Limit must be between 1 and 100'' 400)"
  by code_simp

end
